theory Spec2Isabelle
  imports Main "HOL-Library.Multiset"
begin

section \<open>JavaScript strings\<close>

text \<open>
  A JavaScript string is a sequence of UTF-16 code units, and \<open>length\<close>, \<open>trim\<close>,
  \<open>includes\<close> and the regular expressions of the source all work on code units. The
  model keeps this: a string is a list of code units (numbers below \<open>65536\<close>), and
  \<open>js\<close> embeds an ASCII literal of the source. A character outside ASCII (the emoji
  of some replies) is written as its surrogate pair.
\<close>

type_synonym jsstring = "nat list"

definition js :: "string \<Rightarrow> jsstring" where
  "js s = map of_char s"

text \<open>
  The code units that \<open>String.prototype.trim\<close> strips and that \<open>\s\<close> matches in a
  regular expression: the WhiteSpace and LineTerminator productions of ECMAScript.
\<close>

definition isWhiteSpace :: "nat \<Rightarrow> bool" where
  "isWhiteSpace c \<longleftrightarrow>
     c \<in> {0x09, 0x0A, 0x0B, 0x0C, 0x0D, 0x20, 0xA0, 0x1680, 0x2028, 0x2029, 0x202F,
          0x205F, 0x3000, 0xFEFF} \<or> (0x2000 \<le> c \<and> c \<le> 0x200A)"

definition trimStart :: "jsstring \<Rightarrow> jsstring" where
  "trimStart s = dropWhile isWhiteSpace s"

definition trimEnd :: "jsstring \<Rightarrow> jsstring" where
  "trimEnd s = rev (dropWhile isWhiteSpace (rev s))"

definition trim :: "jsstring \<Rightarrow> jsstring" where
  "trim s = trimEnd (trimStart s)"

fun startsWith :: "jsstring \<Rightarrow> jsstring \<Rightarrow> bool" where
  "startsWith s [] = True"
| "startsWith [] (k # ks) = False"
| "startsWith (c # cs) (k # ks) = (c = k \<and> startsWith cs ks)"

text \<open>\<open>s.includes(k)\<close>: \<open>k\<close> occurs in \<open>s\<close> as a contiguous run of code units.\<close>

fun includesStr :: "jsstring \<Rightarrow> jsstring \<Rightarrow> bool" where
  "includesStr [] k = (k = [])"
| "includesStr (c # cs) k = (startsWith (c # cs) k \<or> includesStr cs k)"

text \<open>
  \<open>toLowerCase\<close> on the code units of ASCII and Latin-1, where the Unicode lower-case
  mapping is one code unit to one code unit. Code units above \<open>0xFF\<close> are left as they
  are: the full Unicode case mapping is outside this model, and every general statement
  about the matcher below is made about the lowered message, whatever it is.
\<close>

definition toLowerCaseUnit :: "nat \<Rightarrow> nat" where
  "toLowerCaseUnit c =
     (if 0x41 \<le> c \<and> c \<le> 0x5A then c + 0x20
      else if 0xC0 \<le> c \<and> c \<le> 0xDE \<and> c \<noteq> 0xD7 then c + 0x20
      else c)"

definition toLowerCase :: "jsstring \<Rightarrow> jsstring" where
  "toLowerCase s = map toLowerCaseUnit s"

text \<open>Decimal rendering of a number inside a template literal, \<open>`${n}`\<close>.\<close>

fun numToString :: "nat \<Rightarrow> jsstring" where
  "numToString n = (if n < 10 then [0x30 + n] else numToString (n div 10) @ [0x30 + n mod 10])"

declare numToString.simps [simp del]

section \<open>The canned-response matcher (ChatWidget.tsx, getAutoReply)\<close>

text \<open>
  \<open>profile.json\<close> is data loaded at build time; the matcher reads four of its
  fields. The profile is a parameter of the model, with the scalar fields of the
  \<open>Profile\<close> interface.
\<close>

record Profile =
  name :: jsstring
  verified :: bool
  location :: jsstring
  title :: jsstring
  avatar :: jsstring
  resumeUrl :: jsstring
  email :: jsstring
  phone :: jsstring
  messengerUrl :: jsstring


definition getAutoReply :: "Profile \<Rightarrow> jsstring \<Rightarrow> jsstring" where
  "getAutoReply profile userMessage =
    (let lowerMessage = toLowerCase userMessage in
     \<comment> \<open>Greetings\<close>
     if includesStr lowerMessage (js ''hi'') \<or> includesStr lowerMessage (js ''hello'') \<or> includesStr lowerMessage (js ''hey'') \<or>
             includesStr lowerMessage (js ''good morning'') \<or> includesStr lowerMessage (js ''good afternoon'') \<or> includesStr lowerMessage (js ''good evening'')
     then js ''Hi there! Thanks for reaching out. I'm currently away, but feel free to leave a message or email me at '' @
          email profile @
          js ''. I'll get back to you soon!''
     \<comment> \<open>Farewells\<close>
     else if includesStr lowerMessage (js ''bye'') \<or> includesStr lowerMessage (js ''goodbye'') \<or> includesStr lowerMessage (js ''see you'') \<or>
             includesStr lowerMessage (js ''take care'')
     then js ''Thanks for chatting! Feel free to come back anytime. Have a great day! '' @
          [0xD83D, 0xDC4B]
     \<comment> \<open>Thanks\<close>
     else if includesStr lowerMessage (js ''thank'') \<or> includesStr lowerMessage (js ''thanks'') \<or> includesStr lowerMessage (js ''appreciate'')
     then js ''You're welcome! Let me know if there's anything else I can help with. '' @
          [0xD83D, 0xDE0A]
     \<comment> \<open>Need a website\<close>
     else if includesStr lowerMessage (js ''need a website'') \<or> includesStr lowerMessage (js ''want a website'') \<or> includesStr lowerMessage (js ''build me a website'') \<or>
             includesStr lowerMessage (js ''create a website'') \<or> includesStr lowerMessage (js ''make a website'') \<or> includesStr lowerMessage (js ''looking for a website'')
     then js ''I'd love to help you build a website! Please tell me more about your business and what kind of website you're looking for. I'll get back to you with ideas and a quote. '' @
          [0xD83D, 0xDE80]
     \<comment> \<open>Business website\<close>
     else if includesStr lowerMessage (js ''business'') \<or> includesStr lowerMessage (js ''company'') \<or> includesStr lowerMessage (js ''startup'') \<or>
             includesStr lowerMessage (js ''enterprise'')
     then js ''I specialize in creating professional websites for businesses! Whether you need a landing page, company website, or e-commerce store, I can help. Tell me more about your business!''
     \<comment> \<open>Online store / E-commerce\<close>
     else if includesStr lowerMessage (js ''online store'') \<or> includesStr lowerMessage (js ''e-commerce'') \<or> includesStr lowerMessage (js ''ecommerce'') \<or>
             includesStr lowerMessage (js ''sell online'') \<or> includesStr lowerMessage (js ''shop'') \<or> includesStr lowerMessage (js ''selling products'')
     then js ''I can build you an online store to sell your products! I work with modern e-commerce solutions. Let me know what products you're selling and I'll help you get started.''
     \<comment> \<open>Landing page\<close>
     else if includesStr lowerMessage (js ''landing page'') \<or> includesStr lowerMessage (js ''one page'') \<or> includesStr lowerMessage (js ''single page'') \<or>
             includesStr lowerMessage (js ''simple website'')
     then js ''A landing page is a great way to showcase your business! I can create a beautiful, responsive landing page that converts visitors into customers. What's your business about?''
     \<comment> \<open>Mobile app\<close>
     else if includesStr lowerMessage (js ''mobile app'') \<or> includesStr lowerMessage (js ''android'') \<or> includesStr lowerMessage (js ''ios'') \<or>
             includesStr lowerMessage (js ''app for my'') \<or> includesStr lowerMessage (js ''phone app'')
     then js ''I also develop mobile apps! Tell me about your app idea - what problem does it solve? I'd love to help bring your vision to life. '' @
          [0xD83D, 0xDCF1]
     \<comment> \<open>Redesign / Revamp\<close>
     else if includesStr lowerMessage (js ''redesign'') \<or> includesStr lowerMessage (js ''revamp'') \<or> includesStr lowerMessage (js ''update my website'') \<or>
             includesStr lowerMessage (js ''improve my website'') \<or> includesStr lowerMessage (js ''fix my website'') \<or> includesStr lowerMessage (js ''old website'')
     then js ''I can help modernize your existing website! Share your current website URL and tell me what you'd like to improve. I'll give you recommendations and a quote.''
     \<comment> \<open>Logo / Branding\<close>
     else if includesStr lowerMessage (js ''logo'') \<or> includesStr lowerMessage (js ''branding'') \<or> includesStr lowerMessage (js ''brand'') \<or>
             includesStr lowerMessage (js ''design'')
     then js ''While my main focus is web development, I can help with basic branding and design for your website. Tell me more about your brand vision!''
     \<comment> \<open>Restaurant / Food\<close>
     else if includesStr lowerMessage (js ''restaurant'') \<or> includesStr lowerMessage (js ''food'') \<or> includesStr lowerMessage (js ''cafe'') \<or>
             includesStr lowerMessage (js ''menu'') \<or> includesStr lowerMessage (js ''catering'')
     then js ''I can create a beautiful website for your restaurant or food business! Features like online menus, reservations, and ordering systems are all possible. Tell me more about your place!''
     \<comment> \<open>Salon / Beauty\<close>
     else if includesStr lowerMessage (js ''salon'') \<or> includesStr lowerMessage (js ''beauty'') \<or> includesStr lowerMessage (js ''spa'') \<or>
             includesStr lowerMessage (js ''hair'') \<or> includesStr lowerMessage (js ''nail'') \<or> includesStr lowerMessage (js ''makeup'')
     then js ''I'd love to create a stunning website for your beauty business! I can include booking systems, service menus, and galleries to showcase your work. What services do you offer?''
     \<comment> \<open>Real Estate\<close>
     else if includesStr lowerMessage (js ''real estate'') \<or> includesStr lowerMessage (js ''property'') \<or> includesStr lowerMessage (js ''house'') \<or>
             includesStr lowerMessage (js ''apartment'') \<or> includesStr lowerMessage (js ''rental'')
     then js ''I can build a professional real estate website with property listings, search features, and contact forms. Tell me more about your real estate business!''
     \<comment> \<open>Portfolio / Personal\<close>
     else if includesStr lowerMessage (js ''portfolio'') \<or> includesStr lowerMessage (js ''personal website'') \<or> includesStr lowerMessage (js ''my own website'') \<or>
             includesStr lowerMessage (js ''showcase my work'')
     then js ''A portfolio website is perfect for showcasing your work! I can create something similar to this site, customized for you. What kind of work do you want to display?''
     \<comment> \<open>Blog\<close>
     else if includesStr lowerMessage (js ''blog'') \<or> includesStr lowerMessage (js ''write'') \<or> includesStr lowerMessage (js ''articles'') \<or>
             includesStr lowerMessage (js ''content'')
     then js ''I can set up a beautiful blog for you! Whether it's personal blogging or content marketing for your business, I've got you covered. What topics will you write about?''
     \<comment> \<open>Booking / Appointment\<close>
     else if includesStr lowerMessage (js ''booking'') \<or> includesStr lowerMessage (js ''appointment'') \<or> includesStr lowerMessage (js ''schedule'') \<or>
             includesStr lowerMessage (js ''reservation'')
     then js ''I can integrate booking and appointment systems into your website! This is great for service-based businesses. What kind of appointments do you need to manage?''
     \<comment> \<open>How long / Timeline\<close>
     else if includesStr lowerMessage (js ''how long'') \<or> includesStr lowerMessage (js ''timeline'') \<or> includesStr lowerMessage (js ''deadline'') \<or>
             includesStr lowerMessage (js ''when can'') \<or> includesStr lowerMessage (js ''turnaround'')
     then js ''Project timelines depend on complexity. A simple landing page takes about 1-2 weeks, while larger projects may take 4-8 weeks. Share your requirements and deadline, and I'll let you know if I can meet it!''
     \<comment> \<open>How much / Payment\<close>
     else if includesStr lowerMessage (js ''how much'') \<or> includesStr lowerMessage (js ''payment'') \<or> includesStr lowerMessage (js ''pay'') \<or>
             includesStr lowerMessage (js ''deposit'') \<or> includesStr lowerMessage (js ''installment'')
     then js ''Pricing varies based on project scope. I offer flexible payment options including deposits and installments. Let's discuss your project first, and I'll provide a detailed quote!''
     \<comment> \<open>Maintenance / Updates\<close>
     else if includesStr lowerMessage (js ''maintenance'') \<or> includesStr lowerMessage (js ''update'') \<or> includesStr lowerMessage (js ''manage'') \<or>
             includesStr lowerMessage (js ''after'') \<or> includesStr lowerMessage (js ''support after'')
     then js ''Yes, I offer website maintenance and support! I can help you keep your site updated, secure, and running smoothly. We can discuss a maintenance plan that works for you.''
     \<comment> \<open>Domain / Hosting\<close>
     else if includesStr lowerMessage (js ''domain'') \<or> includesStr lowerMessage (js ''hosting'') \<or> includesStr lowerMessage (js ''server'') \<or>
             includesStr lowerMessage (js ''publish'') \<or> includesStr lowerMessage (js ''go live'')
     then js ''I can help you with domain registration and hosting setup! I'll guide you through the process and make sure your website goes live smoothly. '' @
          [0xD83C, 0xDF10]
     \<comment> \<open>SEO\<close>
     else if includesStr lowerMessage (js ''seo'') \<or> includesStr lowerMessage (js ''google'') \<or> includesStr lowerMessage (js ''search engine'') \<or>
             includesStr lowerMessage (js ''ranking'') \<or> includesStr lowerMessage (js ''found online'')
     then js ''I build websites with SEO best practices in mind! This helps your site rank better on Google. I can also provide basic SEO optimization as part of the project.''
     \<comment> \<open>Social Media Integration\<close>
     else if includesStr lowerMessage (js ''facebook'') \<or> includesStr lowerMessage (js ''instagram'') \<or> includesStr lowerMessage (js ''twitter'') \<or>
             includesStr lowerMessage (js ''social media integration'')
     then js ''I can integrate your social media accounts into your website! This includes feeds, share buttons, and links to your profiles. Which platforms do you use?''
     \<comment> \<open>Projects & Work\<close>
     else if includesStr lowerMessage (js ''project'') \<or> includesStr lowerMessage (js ''work'') \<or> includesStr lowerMessage (js ''collaborate'')
     then js ''I'd love to discuss potential projects! Please share some details about what you have in mind, and I'll respond as soon as I'm available. You can also check out my Projects section to see my previous work!''
     \<comment> \<open>Hiring & Jobs\<close>
     else if includesStr lowerMessage (js ''hire'') \<or> includesStr lowerMessage (js ''job'') \<or> includesStr lowerMessage (js ''opportunity'') \<or>
             includesStr lowerMessage (js ''position'') \<or> includesStr lowerMessage (js ''vacancy'') \<or> includesStr lowerMessage (js ''recruit'')
     then js ''Thanks for considering me! I'm always open to new opportunities. Please send the details to my email and I'll review them promptly. Looking forward to hearing from you!''
     \<comment> \<open>Contact Info\<close>
     else if includesStr lowerMessage (js ''contact'') \<or> includesStr lowerMessage (js ''email'') \<or> includesStr lowerMessage (js ''reach'') \<or>
             includesStr lowerMessage (js ''phone'') \<or> includesStr lowerMessage (js ''call'')
     then js ''You can reach me at '' @
          email profile @
          js ''. I typically respond within 24 hours! You can also find me on LinkedIn and GitHub through the social links on this page.''
     \<comment> \<open>Skills & Tech\<close>
     else if includesStr lowerMessage (js ''skill'') \<or> includesStr lowerMessage (js ''tech'') \<or> includesStr lowerMessage (js ''stack'') \<or>
             includesStr lowerMessage (js ''programming'') \<or> includesStr lowerMessage (js ''language'')
     then js ''Check out my Skills section on this page to see my tech stack! I work with React, TypeScript, and various modern web technologies. Feel free to ask about any specific technology.''
     \<comment> \<open>Experience & Background\<close>
     else if includesStr lowerMessage (js ''experience'') \<or> includesStr lowerMessage (js ''background'') \<or> includesStr lowerMessage (js ''career'') \<or>
             includesStr lowerMessage (js ''history'')
     then js ''You can find my professional experience in the Experience section of this page. I'm a BSIT student with hands-on experience in web and mobile development!''
     \<comment> \<open>Education\<close>
     else if includesStr lowerMessage (js ''education'') \<or> includesStr lowerMessage (js ''school'') \<or> includesStr lowerMessage (js ''university'') \<or>
             includesStr lowerMessage (js ''degree'') \<or> includesStr lowerMessage (js ''study'')
     then js ''I'm currently a 4th year BS Information Technology student. Check out my Experience section for more details about my educational background!''
     \<comment> \<open>Availability\<close>
     else if includesStr lowerMessage (js ''available'') \<or> includesStr lowerMessage (js ''free'') \<or> includesStr lowerMessage (js ''busy'')
     then js ''I'm currently open to freelance projects and job opportunities! Feel free to share your timeline and requirements, and I'll let you know my availability.''
     \<comment> \<open>Pricing & Rates\<close>
     else if includesStr lowerMessage (js ''price'') \<or> includesStr lowerMessage (js ''rate'') \<or> includesStr lowerMessage (js ''cost'') \<or>
             includesStr lowerMessage (js ''budget'') \<or> includesStr lowerMessage (js ''charge'') \<or> includesStr lowerMessage (js ''fee'')
     then js ''Pricing depends on the project scope and requirements. Let's discuss your project details first, and I'll provide a fair quote. Send me the specifics via email!''
     \<comment> \<open>Services\<close>
     else if includesStr lowerMessage (js ''service'') \<or> includesStr lowerMessage (js ''offer'') \<or> includesStr lowerMessage (js ''provide'') \<or>
             includesStr lowerMessage (js ''do you do'')
     then js ''I offer web development, mobile app development, and UI/UX design services. Check out my Projects section to see examples of my work!''
     \<comment> \<open>Resume/CV\<close>
     else if includesStr lowerMessage (js ''resume'') \<or> includesStr lowerMessage (js ''cv'') \<or> includesStr lowerMessage (js ''curriculum'')
     then js ''You can download my resume from the link on this page. It has all my skills, experience, and education details!''
     \<comment> \<open>Location\<close>
     else if includesStr lowerMessage (js ''location'') \<or> includesStr lowerMessage (js ''where'') \<or> includesStr lowerMessage (js ''based'') \<or>
             includesStr lowerMessage (js ''country'') \<or> includesStr lowerMessage (js ''city'')
     then js ''I'm based in '' @
          location profile @
          js ''. I'm open to remote work and collaborations worldwide!''
     \<comment> \<open>Help\<close>
     else if includesStr lowerMessage (js ''help'') \<or> includesStr lowerMessage (js ''support'') \<or> includesStr lowerMessage (js ''assist'')
     then js ''I'm happy to help! You can ask me about my services, pricing, timeline, or anything else. What would you like to know?''
     \<comment> \<open>Who are you\<close>
     else if includesStr lowerMessage (js ''who are you'') \<or> includesStr lowerMessage (js ''about you'') \<or> includesStr lowerMessage (js ''tell me about'') \<or>
             includesStr lowerMessage (js ''introduce'')
     then js ''I'm '' @
          name profile @
          js '', a '' @
          title profile @
          js ''. I help businesses and individuals create beautiful, functional websites and apps. Check out the About section to learn more!''
     \<comment> \<open>Compliments\<close>
     else if includesStr lowerMessage (js ''nice'') \<or> includesStr lowerMessage (js ''great'') \<or> includesStr lowerMessage (js ''awesome'') \<or>
             includesStr lowerMessage (js ''cool'') \<or> includesStr lowerMessage (js ''amazing'') \<or> includesStr lowerMessage (js ''love'') \<or>
             includesStr lowerMessage (js ''beautiful'') \<or> includesStr lowerMessage (js ''impressive'')
     then js ''Thank you so much! I really appreciate the kind words. '' @
          [0xD83D, 0xDE0A] @
          js '' Let me know if there's anything I can help you with!''
     \<comment> \<open>Interested / Want to work together\<close>
     else if includesStr lowerMessage (js ''interested'') \<or> includesStr lowerMessage (js ''want to work'') \<or> includesStr lowerMessage (js ''work together'') \<or>
             includesStr lowerMessage (js ''work with you'')
     then js ''That's great to hear! I'd love to work with you. Tell me more about what you need, and let's make it happen! '' @
          [0xD83C, 0xDFAF]
     \<comment> \<open>Questions\<close>
     else if includesStr lowerMessage (js ''?'') \<or> includesStr lowerMessage (js ''how'') \<or> includesStr lowerMessage (js ''what'') \<or>
             includesStr lowerMessage (js ''when'') \<or> includesStr lowerMessage (js ''why'') \<or> includesStr lowerMessage (js ''can you'')
     then js ''Great question! I'm currently away, but I'll get back to you with a detailed answer soon. Feel free to email me for a faster response!''
     \<comment> \<open>Default response\<close>
     else js ''Thanks for your message! I'm currently away but I'll get back to you as soon as possible. You can also reach me directly at '' @
          email profile @
          js ''. Looking forward to connecting with you!'')"




text \<open>The profile of the design document (\<open>.kiro/specs/portfolio-website/design.md\<close>), for examples.\<close>

definition exampleProfile :: Profile where
  "exampleProfile =
     \<lparr>name = js ''Developer Name'', verified = True, location = js ''City, Country'',
      title = js ''BSIT Student / Aspiring Web Developer'', avatar = js ''/images/avatar.jpg'',
      resumeUrl = js ''/resume.pdf'', email = js ''email@example.com'',
      phone = js ''123-456-7890'', messengerUrl = js ''https://m.me/username''\<rparr>"

section \<open>Form validation (utils/validation.ts)\<close>

record ValidationResult =
  isValid :: bool
  error :: "jsstring option"

definition required :: "jsstring \<Rightarrow> jsstring \<Rightarrow> ValidationResult" where
  "required value fieldName =
     (let trimmed = trim value in
      if trimmed = [] then \<lparr>isValid = False, error = Some (fieldName @ js '' is required'')\<rparr>
      else \<lparr>isValid = True, error = None\<rparr>)"

subsection \<open>Regular expressions\<close>

text \<open>
  The regular expressions of the source without flags: a pattern over code units, matched
  by taking derivatives. \<open>regexTest\<close> is \<open>RegExp.prototype.test\<close> for a pattern anchored
  by \<open>^\<close> and \<open>$\<close>, which has to match the whole input.
\<close>

datatype regex =
  Never
  | Empty
  | Class "nat \<Rightarrow> bool"
  | Alt regex regex
  | Cat regex regex
  | Rep regex

definition OneOrMore :: "regex \<Rightarrow> regex" where
  "OneOrMore r = Cat r (Rep r)"

fun nullable :: "regex \<Rightarrow> bool" where
  "nullable Never = False"
| "nullable Empty = True"
| "nullable (Class P) = False"
| "nullable (Alt r s) = (nullable r \<or> nullable s)"
| "nullable (Cat r s) = (nullable r \<and> nullable s)"
| "nullable (Rep r) = True"

fun deriv :: "nat \<Rightarrow> regex \<Rightarrow> regex" where
  "deriv c Never = Never"
| "deriv c Empty = Never"
| "deriv c (Class P) = (if P c then Empty else Never)"
| "deriv c (Alt r s) = Alt (deriv c r) (deriv c s)"
| "deriv c (Cat r s) =
     (if nullable r then Alt (Cat (deriv c r) s) (deriv c s) else Cat (deriv c r) s)"
| "deriv c (Rep r) = Cat (deriv c r) (Rep r)"

fun regexTest :: "regex \<Rightarrow> jsstring \<Rightarrow> bool" where
  "regexTest r [] = nullable r"
| "regexTest r (c # cs) = regexTest (deriv c r) cs"

text \<open>\<open>[^\s@]\<close>, and the pattern \<open>/^[^\s@]+@[^\s@]+\.[^\s@]+$/\<close> of \<open>isValidEmail\<close>.\<close>

definition notSpaceOrAt :: "nat \<Rightarrow> bool" where
  "notSpaceOrAt c \<longleftrightarrow> \<not> isWhiteSpace c \<and> c \<noteq> 0x40"

definition emailRegex :: regex where
  "emailRegex =
     Cat (OneOrMore (Class notSpaceOrAt))
       (Cat (Class (\<lambda>c. c = 0x40))
         (Cat (OneOrMore (Class notSpaceOrAt))
           (Cat (Class (\<lambda>c. c = 0x2E))
             (OneOrMore (Class notSpaceOrAt)))))"

definition isValidEmail :: "jsstring \<Rightarrow> ValidationResult" where
  "isValidEmail value =
     (let trimmed = trim value in
      if trimmed = [] then \<lparr>isValid = False, error = Some (js ''Email is required'')\<rparr>
      else if \<not> regexTest emailRegex trimmed
      then \<lparr>isValid = False, error = Some (js ''Please enter a valid email address'')\<rparr>
      else \<lparr>isValid = True, error = None\<rparr>)"

definition minLength :: "jsstring \<Rightarrow> nat \<Rightarrow> jsstring \<Rightarrow> ValidationResult" where
  "minLength value min' fieldName =
     (let trimmed = trim value in
      if length trimmed < min'
      then \<lparr>isValid = False,
            error = Some (fieldName @ js '' must be at least '' @ numToString min' @ js '' characters'')\<rparr>
      else \<lparr>isValid = True, error = None\<rparr>)"

definition maxLength :: "jsstring \<Rightarrow> nat \<Rightarrow> jsstring \<Rightarrow> ValidationResult" where
  "maxLength value max' fieldName =
     (let trimmed = trim value in
      if length trimmed > max'
      then \<lparr>isValid = False,
            error = Some (fieldName @ js '' must be no more than '' @ numToString max' @ js '' characters'')\<rparr>
      else \<lparr>isValid = True, error = None\<rparr>)"

definition validateName :: "jsstring \<Rightarrow> ValidationResult" where
  "validateName value =
     (let requiredCheck = required value (js ''Name'') in
      if \<not> isValid requiredCheck then requiredCheck
      else let minCheck = minLength value 2 (js ''Name'') in
      if \<not> isValid minCheck then minCheck
      else let maxCheck = maxLength value 100 (js ''Name'') in
      if \<not> isValid maxCheck then maxCheck
      else \<lparr>isValid = True, error = None\<rparr>)"

definition validateEmail :: "jsstring \<Rightarrow> ValidationResult" where
  "validateEmail value = isValidEmail value"

definition validateMessage :: "jsstring \<Rightarrow> ValidationResult" where
  "validateMessage value =
     (let requiredCheck = required value (js ''Message'') in
      if \<not> isValid requiredCheck then requiredCheck
      else let minCheck = minLength value 10 (js ''Message'') in
      if \<not> isValid minCheck then minCheck
      else let maxCheck = maxLength value 1000 (js ''Message'') in
      if \<not> isValid maxCheck then maxCheck
      else \<lparr>isValid = True, error = None\<rparr>)"

text \<open>
  The shape the pattern describes, in words: a local part, one \<open>@\<close>, a domain part, a
  dot and a last part, each part one or more code units that are neither white space nor
  \<open>@\<close>.
\<close>

definition emailShaped :: "jsstring \<Rightarrow> bool" where
  "emailShaped t \<longleftrightarrow>
     (\<exists>l d tld. t = l @ [0x40] @ d @ [0x2E] @ tld \<and> l \<noteq> [] \<and> d \<noteq> [] \<and> tld \<noteq> [] \<and>
        (\<forall>c \<in> set (l @ d @ tld). \<not> isWhiteSpace c \<and> c \<noteq> 0x40))"

section \<open>Sorting and formatting (utils/sorting.ts)\<close>

record Experience =
  role :: jsstring
  organization :: jsstring
  startDate :: jsstring
  endDate :: "jsstring option"
  description :: jsstring

subsection \<open>The Date object of the runtime\<close>

text \<open>
  \<open>new Date(s)\<close> parses \<open>s\<close> to a time value, milliseconds since the epoch in UTC, or
  to NaN (\<open>None\<close>). ECMAScript fixes the date-only form \<open>YYYY-MM-DD\<close>: it is UTC midnight
  of that day. Every other string is parsed as the engine sees fit; that part, and the
  offset of local time from UTC (in minutes, at a given time value), are parameters of
  the model.
\<close>

record Runtime =
  otherDateFormats :: "jsstring \<Rightarrow> int option"
  localOffsetMinutes :: "int \<Rightarrow> int"

definition isDigit :: "nat \<Rightarrow> bool" where
  "isDigit c \<longleftrightarrow> 0x30 \<le> c \<and> c \<le> 0x39"

definition digitsValue :: "jsstring \<Rightarrow> nat" where
  "digitsValue ds = foldl (\<lambda>acc c. 10 * acc + (c - 0x30)) 0 ds"

definition isLeapYear :: "nat \<Rightarrow> bool" where
  "isLeapYear y \<longleftrightarrow> y mod 4 = 0 \<and> (y mod 100 \<noteq> 0 \<or> y mod 400 = 0)"

definition daysInMonth :: "nat \<Rightarrow> nat \<Rightarrow> nat" where
  "daysInMonth y m =
     (if m = 2 then (if isLeapYear y then 29 else 28)
      else if m = 4 \<or> m = 6 \<or> m = 9 \<or> m = 11 then 30
      else 31)"

definition parseDateOnly :: "jsstring \<Rightarrow> (nat \<times> nat \<times> nat) option" where
  "parseDateOnly s =
     (if length s = 10 \<and> s ! 4 = 0x2D \<and> s ! 7 = 0x2D \<and>
         list_all isDigit (take 4 s) \<and> list_all isDigit (take 2 (drop 5 s)) \<and>
         list_all isDigit (drop 8 s)
      then
        let y = digitsValue (take 4 s);
            m = digitsValue (take 2 (drop 5 s));
            d = digitsValue (drop 8 s)
        in if 1 \<le> m \<and> m \<le> 12 \<and> 1 \<le> d \<and> d \<le> daysInMonth y m then Some (y, m, d) else None
      else None)"

text \<open>Days between 1970-01-01 and a day of the proleptic Gregorian calendar, and back.\<close>

definition daysFromCivil :: "int \<Rightarrow> int \<Rightarrow> int \<Rightarrow> int" where
  "daysFromCivil y m d =
     (let y' = (if m \<le> 2 then y - 1 else y);
          era = y' div 400;
          yoe = y' - era * 400;
          doy = (153 * (if m > 2 then m - 3 else m + 9) + 2) div 5 + d - 1;
          doe = yoe * 365 + yoe div 4 - yoe div 100 + doy
      in era * 146097 + doe - 719468)"

definition civilFromDays :: "int \<Rightarrow> int \<times> int \<times> int" where
  "civilFromDays z =
     (let z' = z + 719468;
          era = z' div 146097;
          doe = z' - era * 146097;
          yoe = (doe - doe div 1460 + doe div 36524 - doe div 146096) div 365;
          doy = doe - (365 * yoe + yoe div 4 - yoe div 100);
          mp = (5 * doy + 2) div 153;
          d = doy - (153 * mp + 2) div 5 + 1;
          m = (if mp < 10 then mp + 3 else mp - 9);
          y = yoe + era * 400
      in (if m \<le> 2 then y + 1 else y, m, d))"

definition msPerDay :: int where
  "msPerDay = 86400000"

definition Date_parse :: "Runtime \<Rightarrow> jsstring \<Rightarrow> int option" where
  "Date_parse rt s =
     (case parseDateOnly s of
        Some (y, m, d) \<Rightarrow> Some (daysFromCivil (int y) (int m) (int d) * msPerDay)
      | None \<Rightarrow> otherDateFormats rt s)"

text \<open>
  \<open>date.toLocaleDateString('en-US', {month: 'short', year: 'numeric'})\<close>: the month and
  the year of the local day the time value falls on; no \<open>timeZone\<close> option is given, so
  local time is the time zone of the runtime. The year is printed as the year of its
  era, without the era.
\<close>

definition monthShort :: "int \<Rightarrow> jsstring" where
  "monthShort m =
     (if m = 1 then js ''Jan'' else if m = 2 then js ''Feb'' else if m = 3 then js ''Mar''
      else if m = 4 then js ''Apr'' else if m = 5 then js ''May'' else if m = 6 then js ''Jun''
      else if m = 7 then js ''Jul'' else if m = 8 then js ''Aug'' else if m = 9 then js ''Sep''
      else if m = 10 then js ''Oct'' else if m = 11 then js ''Nov'' else js ''Dec'')"

definition yearOfEra :: "int \<Rightarrow> nat" where
  "yearOfEra y = (if 1 \<le> y then nat y else nat (1 - y))"

definition toLocaleDateString :: "Runtime \<Rightarrow> int option \<Rightarrow> jsstring" where
  "toLocaleDateString rt timeValue =
     (case timeValue of
        None \<Rightarrow> js ''Invalid Date''
      | Some t \<Rightarrow>
          (case civilFromDays ((t + localOffsetMinutes rt t * 60000) div msPerDay) of
             (y, m, d) \<Rightarrow> monthShort m @ js '' '' @ numToString (yearOfEra y)))"

subsection \<open>Array.prototype.sort\<close>

text \<open>
  \<open>sort\<close> is stable (ECMAScript 2019), and a comparator result of NaN counts as \<open>0\<close>.
  With a consistent comparator the result is determined, the sorted arrangement in which
  ties keep their order, and the model computes it by insertion. The comparator returns
  a number or NaN (\<open>None\<close>).
\<close>

definition sortCompare :: "('a \<Rightarrow> 'a \<Rightarrow> int option) \<Rightarrow> 'a \<Rightarrow> 'a \<Rightarrow> int" where
  "sortCompare comparefn x y = (case comparefn x y of None \<Rightarrow> 0 | Some v \<Rightarrow> v)"

fun insertSorted :: "('a \<Rightarrow> 'a \<Rightarrow> int option) \<Rightarrow> 'a \<Rightarrow> 'a list \<Rightarrow> 'a list" where
  "insertSorted comparefn x [] = [x]"
| "insertSorted comparefn x (y # ys) =
     (if sortCompare comparefn x y \<le> 0 then x # y # ys else y # insertSorted comparefn x ys)"

definition Array_sort :: "('a \<Rightarrow> 'a \<Rightarrow> int option) \<Rightarrow> 'a list \<Rightarrow> 'a list" where
  "Array_sort comparefn xs = foldr (insertSorted comparefn) xs []"

subsection \<open>sortExperienceByDate, formatDate, formatDuration\<close>

definition getTime :: "Runtime \<Rightarrow> jsstring \<Rightarrow> int option" where
  "getTime rt s = Date_parse rt s"

definition numMinus :: "int option \<Rightarrow> int option \<Rightarrow> int option" where
  "numMinus a b = (case (a, b) of (Some x, Some y) \<Rightarrow> Some (x - y) | _ \<Rightarrow> None)"

definition sortExperienceByDate :: "Runtime \<Rightarrow> Experience list \<Rightarrow> Experience list" where
  "sortExperienceByDate rt experiences =
     Array_sort
       (\<lambda>a b. let dateA = getTime rt (startDate a);
                  dateB = getTime rt (startDate b)
              in numMinus dateB dateA)
       experiences"

definition formatDate :: "Runtime \<Rightarrow> jsstring option \<Rightarrow> jsstring" where
  "formatDate rt dateString =
     (case dateString of
        None \<Rightarrow> js ''Present''
      | Some s \<Rightarrow> if s = [] then js ''Present'' else toLocaleDateString rt (Date_parse rt s))"

definition formatDuration :: "Runtime \<Rightarrow> jsstring \<Rightarrow> jsstring option \<Rightarrow> jsstring" where
  "formatDuration rt startDate' endDate' =
     formatDate rt (Some startDate') @ js '' - '' @ formatDate rt endDate'"

text \<open>The number of places at which \<open>k\<close> occurs in \<open>s\<close>.\<close>

fun countOccurrences :: "jsstring \<Rightarrow> jsstring \<Rightarrow> nat" where
  "countOccurrences k [] = (if k = [] then 1 else 0)"
| "countOccurrences k (c # cs) = (if startsWith (c # cs) k then 1 else 0) + countOccurrences k cs"

text \<open>Two runtimes for examples: UTC, and five hours west of it.\<close>

definition runtimeUTC :: Runtime where
  "runtimeUTC = \<lparr>otherDateFormats = (\<lambda>s. None), localOffsetMinutes = (\<lambda>t. 0)\<rparr>"

definition runtimeWest5 :: Runtime where
  "runtimeWest5 = \<lparr>otherDateFormats = (\<lambda>s. None), localOffsetMinutes = (\<lambda>t. - 300)\<rparr>"

subsection \<open>Notions used to state the properties of the sort\<close>

text \<open>
  A comparator that orders by a key, larger keys first, on a set of values:
  \<open>comparefn x y\<close> is the key of \<open>y\<close> minus the key of \<open>x\<close>. \<open>timeOf\<close> is the time value
  of the start date of an entry.
\<close>

definition descendingBy :: "('a \<Rightarrow> int) \<Rightarrow> ('a \<Rightarrow> 'a \<Rightarrow> int option) \<Rightarrow> 'a set \<Rightarrow> bool" where
  "descendingBy key cmp A \<longleftrightarrow> (\<forall>x \<in> A. \<forall>y \<in> A. cmp x y = Some (key y - key x))"

definition timeOf :: "Runtime \<Rightarrow> Experience \<Rightarrow> int" where
  "timeOf rt e = (case getTime rt (startDate e) of Some t \<Rightarrow> t | None \<Rightarrow> 0)"

definition exampleExperience :: "jsstring \<Rightarrow> jsstring \<Rightarrow> jsstring option \<Rightarrow> Experience" where
  "exampleExperience r s e =
     \<lparr>role = r, organization = js ''Org'', startDate = s, endDate = e, description = js ''...''\<rparr>"

section \<open>The chat session (ChatWidget.tsx)\<close>

datatype Sender = user | owner

record ChatMessage =
  msgId :: jsstring
  content :: jsstring
  sender :: Sender
  timestamp :: nat

record ChatState =
  isOpen :: bool
  messages :: "ChatMessage list"

text \<open>
  The state of a mounted widget: the two \<open>useState\<close> cells, and what the handlers read
  from the runtime: the clock (\<open>Date.now()\<close> and \<open>new Date()\<close>, in milliseconds) and the
  timers set by \<open>setTimeout\<close> and not run yet, in the order they were set, each with the
  time it is due and the message its callback has captured. The field \<open>id\<close> of a
  message is \<open>msgId\<close> here.
\<close>

record Widget =
  chatState :: ChatState
  inputValue :: jsstring
  now :: nat
  timers :: "(nat \<times> jsstring) list"

definition mount :: "ChatMessage list \<Rightarrow> nat \<Rightarrow> Widget" where
  "mount initialMessages t0 =
     \<lparr>chatState = \<lparr>isOpen = False, messages = initialMessages\<rparr>,
      inputValue = [], now = t0, timers = []\<rparr>"

definition toggleChat :: "Widget \<Rightarrow> Widget" where
  "toggleChat w = w\<lparr>chatState := (chatState w)\<lparr>isOpen := \<not> isOpen (chatState w)\<rparr>\<rparr>"

definition sendAutoReply :: "Widget \<Rightarrow> jsstring \<Rightarrow> Widget" where
  "sendAutoReply w userMessage = w\<lparr>timers := timers w @ [(now w + 1000, userMessage)]\<rparr>"

definition handleSendMessage :: "Widget \<Rightarrow> Widget" where
  "handleSendMessage w =
     (let trimmedInput = trim (inputValue w) in
      if trimmedInput = [] then w
      else
        let newMessage =
              \<lparr>msgId = js ''msg-'' @ numToString (now w), content = trimmedInput,
               sender = user, timestamp = now w\<rparr>;
            w1 = w\<lparr>chatState :=
                     (chatState w)\<lparr>messages := messages (chatState w) @ [newMessage]\<rparr>\<rparr>;
            w2 = w1\<lparr>inputValue := []\<rparr>
        in sendAutoReply w2 trimmedInput)"

text \<open>The callback that \<open>sendAutoReply\<close> hands to \<open>setTimeout\<close>, run at a later time.\<close>

definition autoReplyCallback :: "Profile \<Rightarrow> jsstring \<Rightarrow> Widget \<Rightarrow> Widget" where
  "autoReplyCallback profile userMessage w =
     (let replyMessage =
            \<lparr>msgId = js ''msg-'' @ numToString (now w), content = getAutoReply profile userMessage,
             sender = owner, timestamp = now w\<rparr>
      in w\<lparr>chatState := (chatState w)\<lparr>messages := messages (chatState w) @ [replyMessage]\<rparr>\<rparr>)"

text \<open>
  What can happen to a mounted widget: a click on the chat button, typing into the
  input, submitting the form, time passing, and the runtime running the oldest timer
  once it is due.
\<close>

datatype Event = Click | Change jsstring | Submit | Elapse nat | TimerFires

fun step :: "Profile \<Rightarrow> Widget \<Rightarrow> Event \<Rightarrow> Widget" where
  "step profile w Click = toggleChat w"
| "step profile w (Change text) = w\<lparr>inputValue := text\<rparr>"
| "step profile w Submit = handleSendMessage w"
| "step profile w (Elapse ms) = w\<lparr>now := now w + ms\<rparr>"
| "step profile w TimerFires =
     (case timers w of
        [] \<Rightarrow> w
      | (due, userMessage) # rest \<Rightarrow>
          if due \<le> now w then autoReplyCallback profile userMessage (w\<lparr>timers := rest\<rparr>) else w)"

definition run :: "Profile \<Rightarrow> Widget \<Rightarrow> Event list \<Rightarrow> Widget" where
  "run profile w events = foldl (step profile) w events"

text \<open>
  The messages a session has appended to its seed history, and how a sent message and
  its reply correspond: the reply is either in the history, with the matcher's answer
  and a time stamp at least 1000 ms later, or still a timer, due 1000 ms after the
  message.
\<close>

definition appended :: "ChatMessage list \<Rightarrow> Widget \<Rightarrow> ChatMessage list" where
  "appended initialMessages w = drop (length initialMessages) (messages (chatState w))"

fun repliesTo :: "Profile \<Rightarrow> ChatMessage \<Rightarrow> ChatMessage + (nat \<times> jsstring) \<Rightarrow> bool" where
  "repliesTo profile u (Inl r) \<longleftrightarrow>
     sender r = owner \<and> content r = getAutoReply profile (content u) \<and>
     timestamp u + 1000 \<le> timestamp r"
| "repliesTo profile u (Inr (due, userMessage)) \<longleftrightarrow>
     due = timestamp u + 1000 \<and> userMessage = content u"

definition sessionInv :: "Profile \<Rightarrow> ChatMessage list \<Rightarrow> Widget \<Rightarrow> bool" where
  "sessionInv profile initialMessages w \<longleftrightarrow>
     messages (chatState w) = initialMessages @ appended initialMessages w \<and>
     list_all2 (repliesTo profile)
       (filter (\<lambda>m. sender m = user) (appended initialMessages w))
       (map Inl (filter (\<lambda>m. sender m = owner) (appended initialMessages w)) @
        map Inr (timers w))"

section \<open>Facts about strings\<close>

lemma js_eq_Nil: "js s = [] \<longleftrightarrow> s = []"
  by (simp add: js_def)

lemma startsWith_iff: "startsWith s k \<longleftrightarrow> (\<exists>q. s = k @ q)"
  by (induction s k rule: startsWith.induct) auto

lemma includesStr_iff: "includesStr s k \<longleftrightarrow> (\<exists>p q. s = p @ k @ q)"
proof (induction s)
  case Nil
  then show ?case by simp
next
  case (Cons c cs)
  show ?case
  proof
    assume "includesStr (c # cs) k"
    then consider "startsWith (c # cs) k" | "includesStr cs k" by auto
    then show "\<exists>p q. c # cs = p @ k @ q"
    proof cases
      case 1
      then obtain q where "c # cs = k @ q" using startsWith_iff by blast
      then have "c # cs = [] @ k @ q" by simp
      then show ?thesis by blast
    next
      case 2
      then obtain p q where "cs = p @ k @ q" using Cons.IH by blast
      then have "c # cs = (c # p) @ k @ q" by simp
      then show ?thesis by blast
    qed
  next
    assume "\<exists>p q. c # cs = p @ k @ q"
    then obtain p q where pq: "c # cs = p @ k @ q" by blast
    show "includesStr (c # cs) k"
    proof (cases p)
      case Nil
      with pq have "startsWith (c # cs) k" using startsWith_iff by auto
      then show ?thesis by simp
    next
      case (Cons a p')
      with pq have "cs = p' @ k @ q" by simp
      then have "includesStr cs k" using Cons.IH by blast
      then show ?thesis by simp
    qed
  qed
qed

lemma includesStr_append_mid: "includesStr (p @ k @ q) k"
  using includesStr_iff by blast

lemma includesStr_set: "includesStr s k \<Longrightarrow> set k \<subseteq> set s"
  using includesStr_iff by fastforce

section \<open>Formatting dates and durations\<close>

lemma numToString_small: "n < 10 \<Longrightarrow> numToString n = [0x30 + n]"
  by (subst numToString.simps) simp

lemma numToString_big:
  "10 \<le> n \<Longrightarrow> numToString n = numToString (n div 10) @ [0x30 + n mod 10]"
  by (subst numToString.simps) simp

lemma numToString_digits: "c \<in> set (numToString n) \<Longrightarrow> isDigit c"
proof (induction n arbitrary: c rule: numToString.induct)
  case (1 n)
  show ?case
  proof (cases "n < 10")
    case True
    with "1.prems" show ?thesis by (simp add: numToString_small isDigit_def)
  next
    case False
    then have "numToString n = numToString (n div 10) @ [0x30 + n mod 10]"
      by (simp add: numToString_big)
    with "1.prems" have "c \<in> set (numToString (n div 10)) \<or> c = 0x30 + n mod 10" by auto
    then show ?thesis
    proof
      assume "c \<in> set (numToString (n div 10))"
      with False "1.IH" show ?thesis by simp
    next
      assume "c = 0x30 + n mod 10"
      moreover have "n mod 10 < 10" by simp
      ultimately show ?thesis unfolding isDigit_def by linarith
    qed
  qed
qed

lemma monthShort_letters: "c \<in> set (monthShort m) \<Longrightarrow> c \<noteq> 0x2D \<and> c \<noteq> 0x50"
  by (auto simp: monthShort_def js_def split: if_splits)

lemma toLocaleDateString_letters:
  assumes "c \<in> set (toLocaleDateString rt tv)"
  shows "c \<noteq> 0x2D \<and> c \<noteq> 0x50"
proof (cases tv)
  case None
  with assms show ?thesis by (auto simp: toLocaleDateString_def js_def)
next
  case (Some t)
  obtain y m d where civ: "civilFromDays ((t + localOffsetMinutes rt t * 60000) div msPerDay) = (y, m, d)"
    by (metis prod_cases3)
  with Some assms have "c \<in> set (monthShort m) \<or> c = 0x20 \<or> c \<in> set (numToString (yearOfEra y))"
    by (auto simp: toLocaleDateString_def js_def)
  then show ?thesis
    using monthShort_letters numToString_digits by (fastforce simp: isDigit_def)
qed

lemma formatDate_no_dash: "0x2D \<notin> set (formatDate rt d)"
proof (cases "d = None \<or> d = Some []")
  case True
  then show ?thesis by (auto simp: formatDate_def js_def)
next
  case False
  then obtain s where "d = Some s" "s \<noteq> []" by (cases d) auto
  then have "formatDate rt d = toLocaleDateString rt (Date_parse rt s)"
    by (simp add: formatDate_def)
  then show ?thesis using toLocaleDateString_letters by metis
qed

lemma formatDate_no_P: "s \<noteq> [] \<Longrightarrow> 0x50 \<notin> set (formatDate rt (Some s))"
  using toLocaleDateString_letters by (fastforce simp: formatDate_def)

lemma count_no_dash: "0x2D \<notin> set s \<Longrightarrow> countOccurrences (js '' - '') s = 0"
  by (induction s) (auto simp: js_def startsWith_iff)

lemma count_separator:
  assumes "0x2D \<notin> set a" and "0x2D \<notin> set b"
  shows "countOccurrences (js '' - '') (a @ js '' - '' @ b) = 1"
  using assms
proof (induction a)
  case Nil
  have "\<not> startsWith (0x20 # b) (js '' - '')"
    using Nil by (cases b) (auto simp: js_def)
  with Nil show ?case by (simp add: js_def count_no_dash[unfolded js_def, simplified])
next
  case (Cons c a)
  have "\<not> startsWith (c # a @ js '' - '' @ b) (js '' - '')"
    using Cons.prems by (cases a) (auto simp: js_def)
  with Cons show ?case by simp
qed

text \<open>
  C7. \<open>formatDuration\<close> puts \<open>" - "\<close> between the two formatted dates. The separator
  occurs exactly once in the result, for every start string and every end. For a start
  date and an end date that are not the empty string, the result contains \<open>"Present"\<close>
  if and only if the end date is null.
\<close>

theorem formatDuration_contract:
  "formatDuration rt s e = formatDate rt (Some s) @ js '' - '' @ formatDate rt e \<and>
   countOccurrences (js '' - '') (formatDuration rt s e) = 1 \<and>
   (s \<noteq> [] \<and> e \<noteq> Some [] \<longrightarrow>
      (includesStr (formatDuration rt s e) (js ''Present'') \<longleftrightarrow> e = None))"
proof (intro conjI impI)
  show eq: "formatDuration rt s e = formatDate rt (Some s) @ js '' - '' @ formatDate rt e"
    by (simp add: formatDuration_def)
  show "countOccurrences (js '' - '') (formatDuration rt s e) = 1"
    unfolding eq by (rule count_separator) (rule formatDate_no_dash)+
  assume dates: "s \<noteq> [] \<and> e \<noteq> Some []"
  show "includesStr (formatDuration rt s e) (js ''Present'') \<longleftrightarrow> e = None"
  proof
    assume "e = None"
    then have "formatDuration rt s e = (formatDate rt (Some s) @ js '' - '') @ js ''Present'' @ []"
      by (simp add: formatDuration_def formatDate_def)
    then show "includesStr (formatDuration rt s e) (js ''Present'')"
      using includesStr_append_mid by metis
  next
    assume inc: "includesStr (formatDuration rt s e) (js ''Present'')"
    show "e = None"
    proof (rule ccontr)
      assume "e \<noteq> None"
      with dates obtain s' where "e = Some s'" "s' \<noteq> []" by (cases e) auto
      with dates have "0x50 \<notin> set (formatDate rt e)" and "0x50 \<notin> set (formatDate rt (Some s))"
        by (simp_all add: formatDate_no_P)
      then have "0x50 \<notin> set (formatDuration rt s e)"
        by (simp add: eq js_def)
      moreover have "0x50 \<in> set (js ''Present'')" by (simp add: js_def)
      ultimately show False using includesStr_set[OF inc] by blast
    qed
  qed
qed

theorem formatDuration_contract_witness:
  "js ''2023-01-15'' \<noteq> [] \<and> Some (js ''2024-06-01'') \<noteq> Some [] \<and>
   \<not> includesStr (formatDuration runtimeUTC (js ''2023-01-15'') (Some (js ''2024-06-01'')))
        (js ''Present'')"
proof -
  have "js ''2023-01-15'' \<noteq> []" and "Some (js ''2024-06-01'') \<noteq> Some []"
    and "Some (js ''2024-06-01'') \<noteq> None"
    by (simp_all add: js_def)
  with formatDuration_contract [of runtimeUTC "js ''2023-01-15''" "Some (js ''2024-06-01'')"]
  show ?thesis by blast
qed

text \<open>
  C10. \<open>formatDate\<close> tests its argument with \<open>!dateString\<close>, which holds of the empty
  string as it does of null: \<open>formatDate("")\<close> is \<open>"Present"\<close>, and \<open>formatDuration("", e)\<close>
  contains \<open>"Present"\<close> whatever \<open>e\<close> is, a date included.
\<close>

theorem formatDate_empty_string_is_Present:
  "formatDate rt (Some []) = js ''Present'' \<and>
   includesStr (formatDuration rt [] e) (js ''Present'') \<and>
   formatDuration runtimeUTC [] (Some (js ''2024-06-01'')) = js ''Present - Jun 2024''"
proof (intro conjI)
  show "formatDate rt (Some []) = js ''Present''"
    by (simp add: formatDate_def)
  then have "formatDuration rt [] e = [] @ js ''Present'' @ (js '' - '' @ formatDate rt e)"
    by (simp add: formatDuration_def)
  then show "includesStr (formatDuration rt [] e) (js ''Present'')"
    using includesStr_append_mid by metis
  show "formatDuration runtimeUTC [] (Some (js ''2024-06-01'')) = js ''Present - Jun 2024''"
    by code_simp
qed

theorem formatDate_empty_string_is_Present_witness:
  "formatDate runtimeWest5 (Some []) = js ''Present'' \<and>
   includesStr (formatDuration runtimeWest5 [] (Some (js ''2024-06-01''))) (js ''Present'')"
  using formatDate_empty_string_is_Present [of runtimeWest5 "Some (js ''2024-06-01'')"]
  by blast

text \<open>
  The example of the specification, \<open>formatDuration("2023-01-15", null)\<close>, in any
  runtime whose local time is less than a day from UTC: the 15th is in January on both
  sides of midnight.
\<close>

lemma parse_mid_january: "Date_parse rt (js ''2023-01-15'') = Some 1673740800000"
proof -
  have "parseDateOnly (js ''2023-01-15'') = Some (2023, 1, 15)"
    by code_simp
  moreover have "daysFromCivil 2023 1 15 * msPerDay = 1673740800000"
    by code_simp
  ultimately show ?thesis by (simp add: Date_parse_def)
qed

lemma div_within: "0 \<le> r \<Longrightarrow> r < b \<Longrightarrow> (b * q + r) div b = (q::int)"
  by (simp add: div_pos_pos_trivial)

lemma local_day_mid_january:
  assumes "- 1440 < (x::int)" and "x < 1440"
  shows "(1673740800000 + x * 60000) div msPerDay = 19371 \<or>
         (1673740800000 + x * 60000) div msPerDay = 19372"
proof (cases "0 \<le> x")
  case True
  have "1673740800000 + x * 60000 = 86400000 * 19372 + x * 60000" by simp
  moreover have "(86400000 * 19372 + x * 60000) div 86400000 = 19372"
    using True assms by (intro div_within) auto
  ultimately show ?thesis by (simp add: msPerDay_def)
next
  case False
  have "1673740800000 + x * 60000 = 86400000 * 19371 + (86400000 + x * 60000)" by simp
  moreover have "(86400000 * 19371 + (86400000 + x * 60000)) div 86400000 = 19371"
    using False assms by (intro div_within) auto
  ultimately show ?thesis by (simp add: msPerDay_def)
qed

lemma civil_mid_january_a: "civilFromDays 19371 = (2023, 1, 14)"
  by code_simp

lemma civil_mid_january_b: "civilFromDays 19372 = (2023, 1, 15)"
  by code_simp

lemma formatDuration_mid_month:
  assumes "- 1440 < localOffsetMinutes rt 1673740800000"
    and "localOffsetMinutes rt 1673740800000 < 1440"
  shows "formatDuration rt (js ''2023-01-15'') None = js ''Jan 2023 - Present''"
proof -
  define day where "day = (1673740800000 + localOffsetMinutes rt 1673740800000 * 60000) div msPerDay"
  have "day = 19371 \<or> day = 19372"
    unfolding day_def using assms by (rule local_day_mid_january)
  then obtain d where civ: "civilFromDays day = (2023, 1, d)"
    using civil_mid_january_a civil_mid_january_b by auto
  have "monthShort 1 @ js '' '' @ numToString (yearOfEra 2023) = js ''Jan 2023''"
    by (simp add: monthShort_def yearOfEra_def numToString_small numToString_big js_def)
  then have "toLocaleDateString rt (Some 1673740800000) = js ''Jan 2023''"
    using civ by (simp add: toLocaleDateString_def day_def)
  moreover have "js ''2023-01-15'' \<noteq> []" by (simp add: js_eq_Nil)
  ultimately have "formatDate rt (Some (js ''2023-01-15'')) = js ''Jan 2023''"
    by (simp add: formatDate_def parse_mid_january)
  moreover have "js ''Jan 2023'' @ js '' - '' @ js ''Present'' = js ''Jan 2023 - Present''"
    by (simp add: js_def)
  ultimately show ?thesis by (simp add: formatDuration_def formatDate_def)
qed

text \<open>
  C6. The date-only string \<open>"2024-01-01"\<close> is UTC midnight of 1 January 2024; in a
  runtime whose local time is five hours behind UTC that instant is 19:00 on
  31 December 2023, and \<open>formatDate\<close> prints the month and year of the local day.
\<close>

theorem formatDate_first_of_month_west_of_UTC:
  "formatDate runtimeWest5 (Some (js ''2024-01-01'')) = js ''Dec 2023'' \<and>
   formatDate runtimeUTC (Some (js ''2024-01-01'')) = js ''Jan 2024''"
  by code_simp

section \<open>Validation\<close>

subsection \<open>The derivative matcher on the shapes of the email pattern\<close>

lemma regexTest_Never: "\<not> regexTest Never w"
  by (induction w) auto

lemma regexTest_Empty: "regexTest Empty w \<longleftrightarrow> w = []"
  by (cases w) (auto simp: regexTest_Never)

lemma regexTest_Class: "regexTest (Class P) w \<longleftrightarrow> (\<exists>c. w = [c] \<and> P c)"
  by (cases w) (auto simp: regexTest_Never regexTest_Empty)

lemma regexTest_Alt: "regexTest (Alt r s) w \<longleftrightarrow> regexTest r w \<or> regexTest s w"
  by (induction w arbitrary: r s) auto

lemma regexTest_Cat:
  "regexTest (Cat r s) w \<longleftrightarrow> (\<exists>u v. w = u @ v \<and> regexTest r u \<and> regexTest s v)"
proof (induction w arbitrary: r s)
  case Nil
  then show ?case by simp
next
  case (Cons c w)
  have split: "(\<exists>u v. c # w = u @ v \<and> regexTest r u \<and> regexTest s v) \<longleftrightarrow>
      (nullable r \<and> regexTest (deriv c s) w) \<or>
      (\<exists>u v. w = u @ v \<and> regexTest (deriv c r) u \<and> regexTest s v)"
    (is "?L \<longleftrightarrow> ?A \<or> ?B")
  proof
    assume ?L
    then obtain u v where uv: "c # w = u @ v" "regexTest r u" "regexTest s v" by blast
    show "?A \<or> ?B"
    proof (cases u)
      case Nil
      with uv show ?thesis by auto
    next
      case (Cons a u')
      with uv have "w = u' @ v" "regexTest (deriv c r) u'" by auto
      with uv(3) show ?thesis by blast
    qed
  next
    assume "?A \<or> ?B"
    then show ?L
    proof
      assume ?A
      then have "c # w = [] @ (c # w)" "regexTest r []" "regexTest s (c # w)" by auto
      then show ?L by blast
    next
      assume ?B
      then obtain u v where "w = u @ v" "regexTest (deriv c r) u" "regexTest s v" by blast
      then have "c # w = (c # u) @ v" "regexTest r (c # u)" "regexTest s v" by auto
      then show ?L by blast
    qed
  qed
  show ?case
    unfolding split by (auto simp add: regexTest_Alt Cons.IH)
qed

lemma regexTest_Rep_Class: "regexTest (Rep (Class P)) w \<longleftrightarrow> (\<forall>c \<in> set w. P c)"
  by (induction w) (auto simp: regexTest_Cat regexTest_Empty regexTest_Never)

lemma regexTest_OneOrMore_Class:
  "regexTest (OneOrMore (Class P)) w \<longleftrightarrow> w \<noteq> [] \<and> (\<forall>c \<in> set w. P c)"
proof (cases w)
  case Nil
  then show ?thesis by (simp add: OneOrMore_def)
next
  case (Cons c v)
  have "regexTest (OneOrMore (Class P)) (c # v) \<longleftrightarrow> regexTest (Cat (if P c then Empty else Never) (Rep (Class P))) v"
    by (simp add: OneOrMore_def)
  also have "\<dots> \<longleftrightarrow> P c \<and> (\<forall>x \<in> set v. P x)"
    by (auto simp: regexTest_Cat regexTest_Empty regexTest_Never regexTest_Rep_Class)
  finally show ?thesis using Cons by simp
qed

lemma regexTest_emailRegex: "regexTest emailRegex t \<longleftrightarrow> emailShaped t"
proof
  assume "regexTest emailRegex t"
  then obtain l r1 where 1: "t = l @ r1" "l \<noteq> []" "\<forall>c \<in> set l. notSpaceOrAt c"
    and "regexTest (Cat (Class (\<lambda>c. c = 0x40)) (Cat (OneOrMore (Class notSpaceOrAt))
           (Cat (Class (\<lambda>c. c = 0x2E)) (OneOrMore (Class notSpaceOrAt))))) r1"
    unfolding emailRegex_def regexTest_Cat[of "OneOrMore (Class notSpaceOrAt)"]
      regexTest_OneOrMore_Class by blast
  then obtain r2 where 2: "r1 = [0x40] @ r2"
    and "regexTest (Cat (OneOrMore (Class notSpaceOrAt))
           (Cat (Class (\<lambda>c. c = 0x2E)) (OneOrMore (Class notSpaceOrAt)))) r2"
    unfolding regexTest_Cat[of "Class (\<lambda>c. c = 0x40)"] regexTest_Class by blast
  then obtain d r3 where 3: "r2 = d @ r3" "d \<noteq> []" "\<forall>c \<in> set d. notSpaceOrAt c"
    and "regexTest (Cat (Class (\<lambda>c. c = 0x2E)) (OneOrMore (Class notSpaceOrAt))) r3"
    unfolding regexTest_Cat[of "OneOrMore (Class notSpaceOrAt)"]
      regexTest_OneOrMore_Class by blast
  then obtain tld where 4: "r3 = [0x2E] @ tld" "tld \<noteq> []" "\<forall>c \<in> set tld. notSpaceOrAt c"
    unfolding regexTest_Cat[of "Class (\<lambda>c. c = 0x2E)"] regexTest_Class
      regexTest_OneOrMore_Class by blast
  have "t = l @ [0x40] @ d @ [0x2E] @ tld"
    using 1(1) 2 3(1) 4(1) by simp
  moreover have "\<forall>c \<in> set (l @ d @ tld). \<not> isWhiteSpace c \<and> c \<noteq> 0x40"
    using 1(3) 3(3) 4(3) by (auto simp: notSpaceOrAt_def)
  ultimately show "emailShaped t"
    unfolding emailShaped_def using 1(2) 3(2) 4(2) by blast
next
  assume "emailShaped t"
  then obtain l d tld where t: "t = l @ [0x40] @ d @ [0x2E] @ tld"
    and ne: "l \<noteq> []" "d \<noteq> []" "tld \<noteq> []"
    and cl: "\<forall>c \<in> set (l @ d @ tld). \<not> isWhiteSpace c \<and> c \<noteq> 0x40"
    unfolding emailShaped_def by blast
  have pl: "regexTest (OneOrMore (Class notSpaceOrAt)) l"
    and pd: "regexTest (OneOrMore (Class notSpaceOrAt)) d"
    and pt: "regexTest (OneOrMore (Class notSpaceOrAt)) tld"
    using ne cl by (auto simp: regexTest_OneOrMore_Class notSpaceOrAt_def)
  have at: "regexTest (Class (\<lambda>c. c = 0x40)) [0x40]"
    and dot: "regexTest (Class (\<lambda>c. c = 0x2E)) [0x2E]"
    by simp_all
  have "regexTest (Cat (Class (\<lambda>c. c = 0x2E)) (OneOrMore (Class notSpaceOrAt))) ([0x2E] @ tld)"
    using dot pt regexTest_Cat by blast
  then have "regexTest (Cat (OneOrMore (Class notSpaceOrAt))
           (Cat (Class (\<lambda>c. c = 0x2E)) (OneOrMore (Class notSpaceOrAt)))) (d @ [0x2E] @ tld)"
    using pd regexTest_Cat by blast
  then have "regexTest (Cat (Class (\<lambda>c. c = 0x40)) (Cat (OneOrMore (Class notSpaceOrAt))
           (Cat (Class (\<lambda>c. c = 0x2E)) (OneOrMore (Class notSpaceOrAt))))) ([0x40] @ d @ [0x2E] @ tld)"
    using at regexTest_Cat by blast
  then show "regexTest emailRegex t"
    unfolding emailRegex_def t using pl regexTest_Cat by blast
qed

subsection \<open>What trim removes\<close>

lemma trim_decompose:
  "\<exists>a b. s = a @ trim s @ b \<and> (\<forall>c \<in> set (a @ b). isWhiteSpace c)"
proof -
  let ?a = "takeWhile isWhiteSpace s"
  let ?m = "dropWhile isWhiteSpace s"
  let ?b = "rev (takeWhile isWhiteSpace (rev ?m))"
  have "?m = rev (takeWhile isWhiteSpace (rev ?m) @ dropWhile isWhiteSpace (rev ?m))"
    by simp
  also have "\<dots> = rev (dropWhile isWhiteSpace (rev ?m)) @ ?b"
    by (rule rev_append)
  finally have "?m = trim s @ ?b"
    by (simp add: trim_def trimEnd_def trimStart_def)
  then have "s = ?a @ trim s @ ?b"
    by (metis takeWhile_dropWhile_id)
  moreover have "\<forall>c \<in> set (?a @ ?b). isWhiteSpace c"
    by (auto dest: set_takeWhileD)
  ultimately show ?thesis by blast
qed

lemma count_list_absent: "c \<notin> set xs \<Longrightarrow> count_list xs c = 0"
  by (induction xs) auto

lemma count_at_trim: "count_list (trim s) 0x40 = count_list s 0x40"
proof -
  obtain a b where s: "s = a @ trim s @ b" and ws: "\<forall>c \<in> set (a @ b). isWhiteSpace c"
    using trim_decompose by blast
  have "\<not> isWhiteSpace 0x40" by (simp add: isWhiteSpace_def)
  with ws have "0x40 \<notin> set a" "0x40 \<notin> set b" by auto
  then have "count_list (a @ trim s @ b) 0x40 = count_list (trim s) 0x40"
    by (simp add: count_list_absent)
  with s show ?thesis by simp
qed

lemma emailShaped_one_at:
  assumes "emailShaped t"
  shows "count_list t 0x40 = 1"
proof -
  obtain l d tld where t: "t = l @ [0x40] @ d @ [0x2E] @ tld"
    and cl: "\<forall>c \<in> set (l @ d @ tld). \<not> isWhiteSpace c \<and> c \<noteq> 0x40"
    using assms unfolding emailShaped_def by blast
  from cl have "0x40 \<notin> set l" "0x40 \<notin> set d" "0x40 \<notin> set tld" by auto
  then show ?thesis by (simp add: t count_list_absent)
qed

lemma emailShaped_has_dot:
  assumes "emailShaped t"
  shows "0x2E \<in> set t"
  using assms unfolding emailShaped_def by auto

text \<open>
  C8. \<open>validateEmail\<close> on any string: \<open>"Email is required"\<close> when the trimmed input is
  empty; \<open>"Please enter a valid email address"\<close> when it is not empty and not of the
  shape local part, \<open>@\<close>, domain part, dot, last part (each part one or more code units,
  none of them white space or \<open>@\<close>); valid with no error otherwise. An input that does
  not hold exactly one \<open>@\<close> is never valid.
\<close>

theorem validateEmail_cases:
  "(trim s = [] \<longrightarrow>
      validateEmail s = \<lparr>isValid = False, error = Some (js ''Email is required'')\<rparr>) \<and>
   (trim s \<noteq> [] \<and> \<not> emailShaped (trim s) \<longrightarrow>
      validateEmail s = \<lparr>isValid = False, error = Some (js ''Please enter a valid email address'')\<rparr>) \<and>
   (trim s \<noteq> [] \<and> emailShaped (trim s) \<longrightarrow>
      validateEmail s = \<lparr>isValid = True, error = None\<rparr>) \<and>
   (count_list s 0x40 \<noteq> 1 \<longrightarrow> \<not> isValid (validateEmail s))"
proof (intro conjI impI)
  assume "trim s = []"
  then show "validateEmail s = \<lparr>isValid = False, error = Some (js ''Email is required'')\<rparr>"
    by (simp add: validateEmail_def isValidEmail_def)
next
  assume "trim s \<noteq> [] \<and> \<not> emailShaped (trim s)"
  then show "validateEmail s = \<lparr>isValid = False, error = Some (js ''Please enter a valid email address'')\<rparr>"
    by (simp add: validateEmail_def isValidEmail_def regexTest_emailRegex)
next
  assume "trim s \<noteq> [] \<and> emailShaped (trim s)"
  then show "validateEmail s = \<lparr>isValid = True, error = None\<rparr>"
    by (simp add: validateEmail_def isValidEmail_def regexTest_emailRegex)
next
  assume n: "count_list s 0x40 \<noteq> 1"
  have "\<not> emailShaped (trim s)"
    using n emailShaped_one_at[of "trim s"] count_at_trim[of s] by auto
  then show "\<not> isValid (validateEmail s)"
    by (simp add: validateEmail_def isValidEmail_def regexTest_emailRegex Let_def)
qed

lemma trim_examples:
  "trim (js ''   '') = []"
  "trim (js '' a@b.com '') = js ''a@b.com''"
  "trim (js ''a@@b.com'') = js ''a@@b.com''"
  "trim (js ''missing@domain'') = js ''missing@domain''"
  by (simp_all add: trim_def trimEnd_def trimStart_def js_def isWhiteSpace_def)

theorem validateEmail_cases_witness:
  "validateEmail (js ''   '') = \<lparr>isValid = False, error = Some (js ''Email is required'')\<rparr> \<and>
   validateEmail (js ''missing@domain'') =
     \<lparr>isValid = False, error = Some (js ''Please enter a valid email address'')\<rparr> \<and>
   validateEmail (js '' a@b.com '') = \<lparr>isValid = True, error = None\<rparr> \<and>
   \<not> isValid (validateEmail (js ''a@@b.com''))"
proof -
  have e1: "trim (js ''   '') = []"
    by (simp add: trim_examples)
  have "0x2E \<notin> set (js ''missing@domain'')" and "js ''missing@domain'' \<noteq> []"
    by (simp_all add: js_def)
  then have e2: "trim (js ''missing@domain'') \<noteq> [] \<and> \<not> emailShaped (trim (js ''missing@domain''))"
    unfolding trim_examples using emailShaped_has_dot by blast
  have "js ''a@b.com'' = js ''a'' @ [0x40] @ js ''b'' @ [0x2E] @ js ''com''"
    and "\<forall>c \<in> set (js ''a'' @ js ''b'' @ js ''com''). \<not> isWhiteSpace c \<and> c \<noteq> 0x40"
    by (simp_all add: js_def isWhiteSpace_def)
  moreover have "js ''a'' \<noteq> []" "js ''b'' \<noteq> []" "js ''com'' \<noteq> []" "js ''a@b.com'' \<noteq> []"
    by (simp_all add: js_def)
  ultimately have e3: "trim (js '' a@b.com '') \<noteq> [] \<and> emailShaped (trim (js '' a@b.com ''))"
    unfolding trim_examples emailShaped_def by blast
  have e4: "count_list (js ''a@@b.com'') 0x40 \<noteq> 1"
    by (simp add: js_def)
  show ?thesis
    using validateEmail_cases[of "js ''   ''"] validateEmail_cases[of "js ''missing@domain''"]
      validateEmail_cases[of "js '' a@b.com ''"] validateEmail_cases[of "js ''a@@b.com''"]
      e1 e2 e3 e4
    by blast
qed

subsection \<open>The length windows\<close>

lemma required_valid: "isValid (required s f) \<longleftrightarrow> trim s \<noteq> []"
  by (simp add: required_def Let_def)

lemma minLength_valid: "isValid (minLength s n f) \<longleftrightarrow> n \<le> length (trim s)"
  by (auto simp add: minLength_def Let_def)

lemma maxLength_valid: "isValid (maxLength s n f) \<longleftrightarrow> length (trim s) \<le> n"
  by (auto simp add: maxLength_def Let_def)

lemma check_error:
  "isValid (required s f) \<longleftrightarrow> error (required s f) = None"
  "isValid (minLength s n f) \<longleftrightarrow> error (minLength s n f) = None"
  "isValid (maxLength s n f) \<longleftrightarrow> error (maxLength s n f) = None"
  by (simp_all add: required_def minLength_def maxLength_def Let_def)

text \<open>
  C9. \<open>validateName\<close> accepts exactly the inputs whose trimmed length is between 2 and
  100, and answers \<open>"Name is required"\<close> when the trimmed input is empty;
  \<open>validateMessage\<close> accepts exactly the trimmed lengths between 10 and 1000. In both
  results the error is null exactly when the result is valid.
\<close>

theorem validate_length_windows:
  "(isValid (validateName s) \<longleftrightarrow> 2 \<le> length (trim s) \<and> length (trim s) \<le> 100) \<and>
   (trim s = [] \<longrightarrow>
      validateName s = \<lparr>isValid = False, error = Some (js ''Name is required'')\<rparr>) \<and>
   (isValid (validateMessage s) \<longleftrightarrow> 10 \<le> length (trim s) \<and> length (trim s) \<le> 1000) \<and>
   (isValid (validateName s) \<longleftrightarrow> error (validateName s) = None) \<and>
   (isValid (validateMessage s) \<longleftrightarrow> error (validateMessage s) = None)"
proof (intro conjI impI)
  show "isValid (validateName s) \<longleftrightarrow> 2 \<le> length (trim s) \<and> length (trim s) \<le> 100"
    by (auto simp: validateName_def Let_def required_valid minLength_valid maxLength_valid)
  show "isValid (validateMessage s) \<longleftrightarrow> 10 \<le> length (trim s) \<and> length (trim s) \<le> 1000"
    by (auto simp: validateMessage_def Let_def required_valid minLength_valid maxLength_valid)
  show "isValid (validateName s) \<longleftrightarrow> error (validateName s) = None"
    using check_error by (simp add: validateName_def Let_def)
  show "isValid (validateMessage s) \<longleftrightarrow> error (validateMessage s) = None"
    using check_error by (simp add: validateMessage_def Let_def)
  assume "trim s = []"
  moreover have "js ''Name'' @ js '' is required'' = js ''Name is required''"
    by (simp add: js_def)
  ultimately show "validateName s = \<lparr>isValid = False, error = Some (js ''Name is required'')\<rparr>"
    by (simp add: validateName_def required_def Let_def)
qed


theorem validate_length_windows_witness:
  "validateName (js ''   '') = \<lparr>isValid = False, error = Some (js ''Name is required'')\<rparr> \<and>
   \<not> isValid (validateName (js '' A '')) \<and> isValid (validateName (js '' Al '')) \<and>
   \<not> isValid (validateMessage (js ''123456789'')) \<and> isValid (validateMessage (js ''1234567890''))"
proof -
  have "trim (js ''   '') = []" "length (trim (js '' A '')) = 1" "length (trim (js '' Al '')) = 2"
    "length (trim (js ''123456789'')) = 9" "length (trim (js ''1234567890'')) = 10"
    by (simp_all add: trim_def trimEnd_def trimStart_def js_def isWhiteSpace_def)
  then show ?thesis
    using validate_length_windows[of "js ''   ''"] validate_length_windows[of "js '' A ''"]
      validate_length_windows[of "js '' Al ''"] validate_length_windows[of "js ''123456789''"]
      validate_length_windows[of "js ''1234567890''"]
    by simp
qed

section \<open>The matcher\<close>



















section \<open>Sorting experience entries\<close>

lemma mset_insertSorted: "mset (insertSorted cmp x ys) = add_mset x (mset ys)"
  by (induction ys) auto

lemma mset_Array_sort: "mset (Array_sort cmp xs) = mset xs"
  unfolding Array_sort_def by (induction xs) (auto simp: mset_insertSorted)

lemma set_Array_sort: "set (Array_sort cmp xs) = set xs"
  using mset_Array_sort by (metis set_mset_mset)

lemma length_Array_sort: "length (Array_sort cmp xs) = length xs"
  using mset_Array_sort by (metis size_mset)

lemma sorted_insertSorted:
  assumes "descendingBy key cmp (insert x (set ys))"
    and "sorted_wrt (\<lambda>a b. key b \<le> key a) ys"
  shows "sorted_wrt (\<lambda>a b. key b \<le> key a) (insertSorted cmp x ys)"
  using assms
proof (induction ys)
  case Nil
  then show ?case by simp
next
  case (Cons y ys)
  have c: "sortCompare cmp x y = key y - key x"
    using Cons.prems(1) by (simp add: descendingBy_def sortCompare_def)
  show ?case
  proof (cases "sortCompare cmp x y \<le> 0")
    case True
    with c have "key y \<le> key x" by simp
    moreover have "\<forall>z \<in> set ys. key z \<le> key y" using Cons.prems(2) by simp
    ultimately have "\<forall>z \<in> set (y # ys). key z \<le> key x" by auto
    with True Cons.prems(2) show ?thesis by simp
  next
    case False
    with c have lt: "key x < key y" by simp
    have d: "descendingBy key cmp (insert x (set ys))"
      using Cons.prems(1) by (simp add: descendingBy_def)
    have "sorted_wrt (\<lambda>a b. key b \<le> key a) (insertSorted cmp x ys)"
      using Cons.IH d Cons.prems(2) by simp
    moreover have "\<forall>z \<in> set (insertSorted cmp x ys). key z \<le> key y"
    proof
      fix z assume "z \<in> set (insertSorted cmp x ys)"
      then have "z \<in># mset (insertSorted cmp x ys)" by simp
      then have "z = x \<or> z \<in> set ys" by (simp add: mset_insertSorted)
      then show "key z \<le> key y" using lt Cons.prems(2) by auto
    qed
    ultimately show ?thesis using False by simp
  qed
qed

lemma sorted_Array_sort:
  assumes "descendingBy key cmp (set xs)"
  shows "sorted_wrt (\<lambda>a b. key b \<le> key a) (Array_sort cmp xs)"
  using assms
proof (induction xs)
  case Nil
  then show ?case by (simp add: Array_sort_def)
next
  case (Cons x xs)
  have "descendingBy key cmp (set xs)"
    using Cons.prems by (simp add: descendingBy_def)
  then have "sorted_wrt (\<lambda>a b. key b \<le> key a) (Array_sort cmp xs)"
    by (rule Cons.IH)
  moreover have "descendingBy key cmp (insert x (set (Array_sort cmp xs)))"
    using Cons.prems by (simp add: set_Array_sort)
  ultimately have "sorted_wrt (\<lambda>a b. key b \<le> key a) (insertSorted cmp x (Array_sort cmp xs))"
    by (intro sorted_insertSorted)
  then show ?case by (simp add: Array_sort_def)
qed

text \<open>Stability: entries with the same key keep their order.\<close>

lemma filter_insertSorted:
  assumes "descendingBy key cmp (insert x (set ys))"
  shows "filter (\<lambda>e. key e = v) (insertSorted cmp x ys) = filter (\<lambda>e. key e = v) (x # ys)"
  using assms
proof (induction ys)
  case Nil
  then show ?case by simp
next
  case (Cons y ys)
  have c: "sortCompare cmp x y = key y - key x"
    using Cons.prems by (simp add: descendingBy_def sortCompare_def)
  have d: "descendingBy key cmp (insert x (set ys))"
    using Cons.prems by (simp add: descendingBy_def)
  show ?case
  proof (cases "sortCompare cmp x y \<le> 0")
    case True
    then show ?thesis by simp
  next
    case False
    with c have "key x \<noteq> key y" by simp
    then show ?thesis using False Cons.IH[OF d] by auto
  qed
qed

lemma filter_Array_sort:
  assumes "descendingBy key cmp (set xs)"
  shows "filter (\<lambda>e. key e = v) (Array_sort cmp xs) = filter (\<lambda>e. key e = v) xs"
  using assms
proof (induction xs)
  case Nil
  then show ?case by (simp add: Array_sort_def)
next
  case (Cons x xs)
  have d: "descendingBy key cmp (set xs)"
    using Cons.prems by (simp add: descendingBy_def)
  have "descendingBy key cmp (insert x (set (Array_sort cmp xs)))"
    using Cons.prems by (simp add: set_Array_sort)
  then have "filter (\<lambda>e. key e = v) (insertSorted cmp x (Array_sort cmp xs)) =
             filter (\<lambda>e. key e = v) (x # Array_sort cmp xs)"
    by (rule filter_insertSorted)
  then show ?case using Cons.IH[OF d] by (simp add: Array_sort_def)
qed

text \<open>A change of the entries that the comparator does not see commutes with the sort.\<close>

lemma map_insertSorted:
  assumes "\<And>a b. cmp (f a) (f b) = cmp a b"
  shows "insertSorted cmp (f x) (map f ys) = map f (insertSorted cmp x ys)"
  by (induction ys) (auto simp: sortCompare_def assms)

lemma map_Array_sort:
  assumes "\<And>a b. cmp (f a) (f b) = cmp a b"
  shows "Array_sort cmp (map f xs) = map f (Array_sort cmp xs)"
proof (induction xs)
  case Nil
  then show ?case by (simp add: Array_sort_def)
next
  case (Cons x xs)
  have "insertSorted cmp (f x) (map f (Array_sort cmp xs)) = map f (insertSorted cmp x (Array_sort cmp xs))"
    using assms by (rule map_insertSorted)
  with Cons show ?case by (simp add: Array_sort_def)
qed

text \<open>
  C5. \<open>sortExperienceByDate\<close> returns a list of the same length with the same entries,
  each as often as in the input, and the end dates play no part: changing them before
  the sort or after it gives the same list. For a list of entries whose start dates are
  dates (the runtime parses each of them), the result is ordered by start date, latest
  first, and entries with the same start date keep their order. The result is a value
  of its own: the input list is not changed, the source sorts a copy.
\<close>

theorem sortExperienceByDate_stable_descending:
  "length (sortExperienceByDate rt xs) = length xs \<and>
   mset (sortExperienceByDate rt xs) = mset xs \<and>
   (\<forall>g. sortExperienceByDate rt (map (\<lambda>e. e\<lparr>endDate := g e\<rparr>) xs) =
        map (\<lambda>e. e\<lparr>endDate := g e\<rparr>) (sortExperienceByDate rt xs)) \<and>
   ((\<forall>e \<in> set xs. getTime rt (startDate e) \<noteq> None) \<longrightarrow>
      sorted_wrt (\<lambda>a b. \<exists>ta tb. getTime rt (startDate a) = Some ta \<and>
                    getTime rt (startDate b) = Some tb \<and> tb \<le> ta)
        (sortExperienceByDate rt xs) \<and>
      (\<forall>t. filter (\<lambda>e. getTime rt (startDate e) = t) (sortExperienceByDate rt xs) =
           filter (\<lambda>e. getTime rt (startDate e) = t) xs))"
proof -
  let ?cmp = "\<lambda>a b. let dateA = getTime rt (startDate a); dateB = getTime rt (startDate b)
                     in numMinus dateB dateA"
  have sort: "sortExperienceByDate rt ys = Array_sort ?cmp ys" for ys
    by (simp add: sortExperienceByDate_def)
  have ends: "Array_sort ?cmp (map (\<lambda>e. e\<lparr>endDate := g e\<rparr>) xs) =
         map (\<lambda>e. e\<lparr>endDate := g e\<rparr>) (Array_sort ?cmp xs)" for g
    by (rule map_Array_sort) simp
  have dated: "sorted_wrt (\<lambda>a b. \<exists>ta tb. getTime rt (startDate a) = Some ta \<and>
                  getTime rt (startDate b) = Some tb \<and> tb \<le> ta) (Array_sort ?cmp xs) \<and>
      (\<forall>t. filter (\<lambda>e. getTime rt (startDate e) = t) (Array_sort ?cmp xs) =
           filter (\<lambda>e. getTime rt (startDate e) = t) xs)"
    if parsed: "\<forall>e \<in> set xs. getTime rt (startDate e) \<noteq> None"
  proof -
    have valid: "getTime rt (startDate e) = Some (timeOf rt e)" if "e \<in> set xs" for e
      using parsed that by (auto simp: timeOf_def)
    have desc: "descendingBy (timeOf rt) ?cmp (set xs)"
      unfolding descendingBy_def by (simp add: valid numMinus_def)
    have "sorted_wrt (\<lambda>a b. timeOf rt b \<le> timeOf rt a) (Array_sort ?cmp xs)"
      using desc by (rule sorted_Array_sort)
    then have "sorted_wrt (\<lambda>a b. \<exists>ta tb. getTime rt (startDate a) = Some ta \<and>
                  getTime rt (startDate b) = Some tb \<and> tb \<le> ta) (Array_sort ?cmp xs)"
      by (rule sorted_wrt_mono_rel[rotated]) (simp add: set_Array_sort valid)
    moreover have "filter (\<lambda>e. getTime rt (startDate e) = t) (Array_sort ?cmp xs) =
         filter (\<lambda>e. getTime rt (startDate e) = t) xs" for t
    proof (cases t)
      case None
      have "filter (\<lambda>e. getTime rt (startDate e) = None) ys = []" if "set ys = set xs" for ys
        using that parsed by (auto simp: filter_empty_conv)
      then show ?thesis using None by (simp add: set_Array_sort)
    next
      case (Some v)
      have "filter (\<lambda>e. getTime rt (startDate e) = Some v) ys = filter (\<lambda>e. timeOf rt e = v) ys"
        if "set ys = set xs" for ys
        using that by (intro filter_cong) (auto simp: valid)
      then show ?thesis
        using Some filter_Array_sort[OF desc, of v] by (simp add: set_Array_sort)
    qed
    ultimately show ?thesis by blast
  qed
  show ?thesis
    unfolding sort using ends dated by (simp add: length_Array_sort mset_Array_sort)
qed

theorem sortExperienceByDate_stable_descending_witness:
  "list_all (\<lambda>e. getTime runtimeUTC (startDate e) \<noteq> None)
     [exampleExperience (js ''1'') (js ''2020-01-01'') None,
      exampleExperience (js ''2'') (js ''2024-06-01'') (Some (js ''2024-12-31'')),
      exampleExperience (js ''3'') (js ''2020-01-01'') (Some (js ''2021-01-01''))] \<and>
   sortExperienceByDate runtimeUTC
     [exampleExperience (js ''1'') (js ''2020-01-01'') None,
      exampleExperience (js ''2'') (js ''2024-06-01'') (Some (js ''2024-12-31'')),
      exampleExperience (js ''3'') (js ''2020-01-01'') (Some (js ''2021-01-01''))] =
     [exampleExperience (js ''2'') (js ''2024-06-01'') (Some (js ''2024-12-31'')),
      exampleExperience (js ''1'') (js ''2020-01-01'') None,
      exampleExperience (js ''3'') (js ''2020-01-01'') (Some (js ''2021-01-01''))] \<and>
   length (sortExperienceByDate runtimeUTC
     [exampleExperience (js ''1'') (js ''2020-01-01'') None,
      exampleExperience (js ''2'') (js ''2024-06-01'') (Some (js ''2024-12-31'')),
      exampleExperience (js ''3'') (js ''2020-01-01'') (Some (js ''2021-01-01''))]) = 3"
proof -
  let ?xs = "[exampleExperience (js ''1'') (js ''2020-01-01'') None,
      exampleExperience (js ''2'') (js ''2024-06-01'') (Some (js ''2024-12-31'')),
      exampleExperience (js ''3'') (js ''2020-01-01'') (Some (js ''2021-01-01''))]"
  have valid: "list_all (\<lambda>e. getTime runtimeUTC (startDate e) \<noteq> None) ?xs"
    by code_simp
  then have "\<forall>e \<in> set ?xs. getTime runtimeUTC (startDate e) \<noteq> None"
    by (simp only: list_all_iff)
  with sortExperienceByDate_stable_descending[of runtimeUTC ?xs]
  have "length (sortExperienceByDate runtimeUTC ?xs) = length ?xs"
    and "\<forall>t. filter (\<lambda>e. getTime runtimeUTC (startDate e) = t) (sortExperienceByDate runtimeUTC ?xs) =
           filter (\<lambda>e. getTime runtimeUTC (startDate e) = t) ?xs"
    by blast+
  moreover have "sortExperienceByDate runtimeUTC ?xs =
     [exampleExperience (js ''2'') (js ''2024-06-01'') (Some (js ''2024-12-31'')),
      exampleExperience (js ''1'') (js ''2020-01-01'') None,
      exampleExperience (js ''3'') (js ''2020-01-01'') (Some (js ''2021-01-01''))]"
    by code_simp
  ultimately show ?thesis using valid by simp
qed

section \<open>The chat session: sending and replying\<close>

lemma handleSendMessage_blank: "trim (inputValue w) = [] \<Longrightarrow> handleSendMessage w = w"
  by (simp add: handleSendMessage_def)

lemma handleSendMessage_send:
  assumes "trim (inputValue w) \<noteq> []"
  shows "messages (chatState (handleSendMessage w)) =
           messages (chatState w) @
             [\<lparr>msgId = js ''msg-'' @ numToString (now w), content = trim (inputValue w),
               sender = user, timestamp = now w\<rparr>]"
    and "timers (handleSendMessage w) = timers w @ [(now w + 1000, trim (inputValue w))]"
    and "isOpen (chatState (handleSendMessage w)) = isOpen (chatState w)"
    and "now (handleSendMessage w) = now w"
  using assms by (simp_all add: handleSendMessage_def sendAutoReply_def Let_def)

text \<open>
  C2. Submitting the form when the trimmed input is empty changes nothing: the widget,
  and so its list of messages, is as before. Otherwise the list of messages afterwards
  is the list before with one message added at the end, sent by the user, whose content
  is the trimmed input.
\<close>

theorem handleSendMessage_appends_one:
  "(trim (inputValue w) = [] \<longrightarrow> handleSendMessage w = w) \<and>
   (trim (inputValue w) \<noteq> [] \<longrightarrow>
      messages (chatState (handleSendMessage w)) =
        messages (chatState w) @
          [\<lparr>msgId = js ''msg-'' @ numToString (now w), content = trim (inputValue w),
            sender = user, timestamp = now w\<rparr>])"
  using handleSendMessage_blank handleSendMessage_send(1) by blast

lemma trim_chat_examples:
  "trim (js ''   '') = []"
  "trim (js '' hi '') = js ''hi''"
  by (simp_all add: trim_def trimEnd_def trimStart_def js_def isWhiteSpace_def)

theorem handleSendMessage_appends_one_witness:
  "handleSendMessage ((mount [] 0)\<lparr>inputValue := js ''   ''\<rparr>) = (mount [] 0)\<lparr>inputValue := js ''   ''\<rparr> \<and>
   messages (chatState (handleSendMessage ((mount [] 0)\<lparr>inputValue := js '' hi ''\<rparr>))) =
     [\<lparr>msgId = js ''msg-0'', content = js ''hi'', sender = user, timestamp = 0\<rparr>]"
proof -
  have "js ''hi'' \<noteq> []" and "js ''msg-'' @ numToString 0 = js ''msg-0''"
    by (simp_all add: js_def numToString_small)
  then show ?thesis
    using handleSendMessage_appends_one[of "(mount [] 0)\<lparr>inputValue := js ''   ''\<rparr>"]
      handleSendMessage_appends_one[of "(mount [] 0)\<lparr>inputValue := js '' hi ''\<rparr>"]
    by (simp add: trim_chat_examples mount_def)
qed

subsection \<open>Replies\<close>

lemma timer_not_due:
  "timers w = (due, umsg) # rest \<Longrightarrow> now w < due \<Longrightarrow> step p w TimerFires = w"
  by simp

lemma timer_due:
  assumes "timers w = (due, umsg) # rest" and "due \<le> now w"
  shows "messages (chatState (step p w TimerFires)) =
           messages (chatState w) @
             [\<lparr>msgId = js ''msg-'' @ numToString (now w), content = getAutoReply p umsg,
               sender = owner, timestamp = now w\<rparr>]"
    and "timers (step p w TimerFires) = rest"
    and "isOpen (chatState (step p w TimerFires)) = isOpen (chatState w)"
  using assms by (simp_all add: autoReplyCallback_def Let_def)

lemma sessionInv_mount: "sessionInv p seed (mount seed t0)"
  by (simp add: sessionInv_def appended_def mount_def)

lemma sessionInv_step:
  assumes "sessionInv p seed w"
  shows "sessionInv p seed (step p w e)"
proof -
  define new where "new = appended seed w"
  have msgs: "messages (chatState w) = seed @ new"
    and rel: "list_all2 (repliesTo p) (filter (\<lambda>m. sender m = user) new)
               (map Inl (filter (\<lambda>m. sender m = owner) new) @ map Inr (timers w))"
    using assms unfolding sessionInv_def new_def by simp_all
  have app: "appended seed w' = new @ ms" if "messages (chatState w') = seed @ new @ ms" for w' ms
    using that by (simp add: appended_def)
  show ?thesis
  proof (cases e)
    case Click
    then show ?thesis using assms by (simp add: sessionInv_def appended_def toggleChat_def)
  next
    case (Change input)
    then show ?thesis using assms by (simp add: sessionInv_def appended_def)
  next
    case (Elapse ms)
    then show ?thesis using assms by (simp add: sessionInv_def appended_def)
  next
    case Submit
    show ?thesis
    proof (cases "trim (inputValue w) = []")
      case True
      then show ?thesis using assms Submit by (simp add: handleSendMessage_blank)
    next
      case False
      define u where "u = \<lparr>msgId = js ''msg-'' @ numToString (now w), content = trim (inputValue w),
               sender = user, timestamp = now w\<rparr>"
      have m': "messages (chatState (handleSendMessage w)) = seed @ new @ [u]"
        and t': "timers (handleSendMessage w) = timers w @ [(now w + 1000, trim (inputValue w))]"
        using handleSendMessage_send[OF False] msgs by (simp_all add: u_def)
      have "list_all2 (repliesTo p) [u] [Inr (now w + 1000, trim (inputValue w))]"
        by (simp add: u_def)
      with rel have "list_all2 (repliesTo p) (filter (\<lambda>m. sender m = user) new @ [u])
               ((map Inl (filter (\<lambda>m. sender m = owner) new) @ map Inr (timers w)) @
                [Inr (now w + 1000, trim (inputValue w))])"
        by (rule list_all2_appendI)
      then show ?thesis
        using Submit m' t' app[OF m'] by (simp add: sessionInv_def u_def)
    qed
  next
    case TimerFires
    show ?thesis
    proof (cases "timers w")
      case Nil
      then show ?thesis using assms TimerFires by simp
    next
      case (Cons t rest)
      obtain due umsg where t: "t = (due, umsg)" by (cases t)
      show ?thesis
      proof (cases "due \<le> now w")
        case False
        then show ?thesis using assms TimerFires Cons t by simp
      next
        case True
        define r where "r = \<lparr>msgId = js ''msg-'' @ numToString (now w), content = getAutoReply p umsg,
               sender = owner, timestamp = now w\<rparr>"
        have tw: "timers w = (due, umsg) # rest" using Cons t by simp
        have m': "messages (chatState (step p w TimerFires)) = seed @ new @ [r]"
          and t': "timers (step p w TimerFires) = rest"
          using timer_due[OF tw True] msgs by (simp_all add: r_def)
        let ?owners = "map Inl (filter (\<lambda>m. sender m = owner) new)"
        from rel tw have "list_all2 (repliesTo p) (filter (\<lambda>m. sender m = user) new)
               (?owners @ Inr (due, umsg) # map Inr rest)"
          by simp
        then obtain us v vs where split: "filter (\<lambda>m. sender m = user) new = us @ v # vs"
          and a: "list_all2 (repliesTo p) us ?owners"
          and b: "repliesTo p v (Inr (due, umsg))"
          and c: "list_all2 (repliesTo p) vs (map Inr rest)"
          by (auto simp: list_all2_append2 list_all2_Cons2)
        from b True have "repliesTo p v (Inl r)"
          by (simp add: r_def)
        with a c have "list_all2 (repliesTo p) (us @ v # vs) ((?owners @ [Inl r]) @ map Inr rest)"
          by (simp add: list_all2_appendI)
        then show ?thesis
          using TimerFires m' t' app[OF m'] split by (simp add: sessionInv_def r_def)
      qed
    qed
  qed
qed

lemma sessionInv_run:
  "sessionInv p seed w \<Longrightarrow> sessionInv p seed (run p w events)"
  unfolding run_def by (induction events arbitrary: w) (auto intro: sessionInv_step)

text \<open>
  C3. A submit with input that is not blank sets exactly one timer, due 1000 ms later,
  for the trimmed text. A timer does nothing before it is due. When the oldest timer is
  run at or after its due time, one message is added at the end of the list: sent by
  the owner, with the matcher's reply to the text as content and the time of the run as
  time stamp; the timer is gone, and whether the widget is open plays no part and does
  not change. In every session, whatever happens in whatever order, the messages sent
  by the user since mounting correspond one to one, in order, to the replies added
  since mounting followed by the timers still waiting: a reply answers its message and
  is stamped at least 1000 ms after it, a waiting timer holds the text of its message.
  The clock of the model only moves forward.
\<close>

theorem replies_follow_messages:
  "(trim (inputValue w) \<noteq> [] \<longrightarrow>
      timers (handleSendMessage w) = timers w @ [(now w + 1000, trim (inputValue w))]) \<and>
   (timers w = (due, umsg) # rest \<and> now w < due \<longrightarrow> step p w TimerFires = w) \<and>
   (timers w = (due, umsg) # rest \<and> due \<le> now w \<longrightarrow>
      messages (chatState (step p w TimerFires)) =
        messages (chatState w) @
          [\<lparr>msgId = js ''msg-'' @ numToString (now w), content = getAutoReply p umsg,
            sender = owner, timestamp = now w\<rparr>] \<and>
      timers (step p w TimerFires) = rest \<and>
      isOpen (chatState (step p w TimerFires)) = isOpen (chatState w)) \<and>
   sessionInv p seed (run p (mount seed t0) events) \<and>
   length (filter (\<lambda>m. sender m = owner) (appended seed (run p (mount seed t0) events))) +
     length (timers (run p (mount seed t0) events)) =
   length (filter (\<lambda>m. sender m = user) (appended seed (run p (mount seed t0) events)))"
proof (intro conjI impI)
  assume "trim (inputValue w) \<noteq> []"
  then show "timers (handleSendMessage w) = timers w @ [(now w + 1000, trim (inputValue w))]"
    by (rule handleSendMessage_send(2))
next
  assume "timers w = (due, umsg) # rest \<and> now w < due"
  then show "step p w TimerFires = w"
    using timer_not_due by blast
next
  assume due: "timers w = (due, umsg) # rest \<and> due \<le> now w"
  then show "messages (chatState (step p w TimerFires)) =
        messages (chatState w) @
          [\<lparr>msgId = js ''msg-'' @ numToString (now w), content = getAutoReply p umsg,
            sender = owner, timestamp = now w\<rparr>]"
    using timer_due(1) by blast
  from due show "timers (step p w TimerFires) = rest"
    using timer_due(2) by blast
  from due show "isOpen (chatState (step p w TimerFires)) = isOpen (chatState w)"
    using timer_due(3) by blast
next
  show inv: "sessionInv p seed (run p (mount seed t0) events)"
    using sessionInv_mount by (rule sessionInv_run)
  show "length (filter (\<lambda>m. sender m = owner) (appended seed (run p (mount seed t0) events))) +
     length (timers (run p (mount seed t0) events)) =
   length (filter (\<lambda>m. sender m = user) (appended seed (run p (mount seed t0) events)))"
    using inv unfolding sessionInv_def by (auto dest: list_all2_lengthD)
qed

lemma run_snoc: "run p w (events @ [e]) = step p (run p w events) e"
  by (simp add: run_def)

subsection \<open>A session, step by step\<close>

lemma trim_hello: "trim (js ''Hello there'') = js ''Hello there''"
  by (simp add: trim_def trimEnd_def trimStart_def js_def isWhiteSpace_def)

lemma msg_ids: "js ''msg-'' @ numToString 0 = js ''msg-0''" "js ''msg-'' @ numToString 1000 = js ''msg-1000''"
  by (simp_all add: js_def numToString_small numToString_big)

lemma session_typed: "run exampleProfile (mount [] 0) [Click, Change (js ''Hello there'')] = \<lparr>chatState = \<lparr>isOpen = True, messages = []\<rparr>,
                  inputValue = js ''Hello there'', now = 0, timers = []\<rparr>"
  by (simp add: run_def mount_def toggleChat_def)

lemma session_waiting: "run exampleProfile (mount [] 0) [Click, Change (js ''Hello there''), Submit, Click, Elapse 500] = \<lparr>chatState = \<lparr>isOpen = False, messages =
          [\<lparr>msgId = js ''msg-0'', content = js ''Hello there'', sender = user, timestamp = 0\<rparr>]\<rparr>,
       inputValue = [], now = 500, timers = [(1000, js ''Hello there'')]\<rparr>"
  by (simp add: run_def mount_def toggleChat_def handleSendMessage_def sendAutoReply_def Let_def trim_hello msg_ids js_eq_Nil)


lemma session_due: "run exampleProfile (mount [] 0) [Click, Change (js ''Hello there''), Submit, Click, Elapse 500, Elapse 500] = \<lparr>chatState = \<lparr>isOpen = False, messages =
          [\<lparr>msgId = js ''msg-0'', content = js ''Hello there'', sender = user, timestamp = 0\<rparr>]\<rparr>,
       inputValue = [], now = 1000, timers = [(1000, js ''Hello there'')]\<rparr>"
  by (simp add: run_def mount_def toggleChat_def handleSendMessage_def sendAutoReply_def Let_def trim_hello msg_ids js_eq_Nil)

theorem replies_follow_messages_witness:
  "timers (run exampleProfile (mount [] 0) [Click, Change (js ''Hello there''), Submit]) =
     [(1000, js ''Hello there'')] \<and>
   run exampleProfile (mount [] 0) [Click, Change (js ''Hello there''), Submit, Click, Elapse 500, TimerFires] =
     run exampleProfile (mount [] 0) [Click, Change (js ''Hello there''), Submit, Click, Elapse 500] \<and>
   messages (chatState (run exampleProfile (mount [] 0)
       [Click, Change (js ''Hello there''), Submit, Click, Elapse 500, Elapse 500, TimerFires])) =
     [\<lparr>msgId = js ''msg-0'', content = js ''Hello there'', sender = user, timestamp = 0\<rparr>,
      \<lparr>msgId = js ''msg-1000'', content = getAutoReply exampleProfile (js ''Hello there''),
       sender = owner, timestamp = 1000\<rparr>] \<and>
   \<not> isOpen (chatState (run exampleProfile (mount [] 0)
       [Click, Change (js ''Hello there''), Submit, Click, Elapse 500, Elapse 500, TimerFires]))"
proof -
  let ?p = exampleProfile
  let ?w1 = "run ?p (mount [] 0) [Click, Change (js ''Hello there'')]"
  let ?w2 = "run ?p (mount [] 0) [Click, Change (js ''Hello there''), Submit, Click, Elapse 500]"
  let ?w3 = "run ?p (mount [] 0) [Click, Change (js ''Hello there''), Submit, Click, Elapse 500, Elapse 500]"
  have h1: "trim (inputValue ?w1) \<noteq> []"
    by (simp add: session_typed trim_hello js_eq_Nil)
  have h2: "timers ?w2 = (1000, js ''Hello there'') # [] \<and> now ?w2 < 1000"
    by (simp add: session_waiting)
  have h3: "timers ?w3 = (1000, js ''Hello there'') # [] \<and> 1000 \<le> now ?w3"
    by (simp add: session_due)
  have a: "timers (handleSendMessage ?w1) = timers ?w1 @ [(now ?w1 + 1000, trim (inputValue ?w1))]"
    using replies_follow_messages[where w = ?w1] h1 by blast
  have b: "step ?p ?w2 TimerFires = ?w2"
    using replies_follow_messages[where w = ?w2 and due = 1000 and umsg = "js ''Hello there''"
        and rest = "[]" and p = ?p] h2 by blast
  have c: "messages (chatState (step ?p ?w3 TimerFires)) =
        messages (chatState ?w3) @
          [\<lparr>msgId = js ''msg-'' @ numToString (now ?w3), content = getAutoReply ?p (js ''Hello there''),
            sender = owner, timestamp = now ?w3\<rparr>]"
    and d: "isOpen (chatState (step ?p ?w3 TimerFires)) = isOpen (chatState ?w3)"
    using replies_follow_messages[where w = ?w3 and due = 1000 and umsg = "js ''Hello there''"
        and rest = "[]" and p = ?p] h3 by blast+
  have r1: "run ?p (mount [] 0) [Click, Change (js ''Hello there''), Submit] = handleSendMessage ?w1"
    using run_snoc[of ?p "mount [] 0" "[Click, Change (js ''Hello there'')]" Submit] by simp
  have r2: "run ?p (mount [] 0) [Click, Change (js ''Hello there''), Submit, Click, Elapse 500, TimerFires]
      = step ?p ?w2 TimerFires"
    using run_snoc[of ?p "mount [] 0" "[Click, Change (js ''Hello there''), Submit, Click, Elapse 500]" TimerFires]
    by simp
  have r3: "run ?p (mount [] 0) [Click, Change (js ''Hello there''), Submit, Click, Elapse 500, Elapse 500, TimerFires]
      = step ?p ?w3 TimerFires"
    using run_snoc[of ?p "mount [] 0" "[Click, Change (js ''Hello there''), Submit, Click, Elapse 500, Elapse 500]" TimerFires]
    by simp
  show ?thesis
    unfolding r1 r2 r3 a b c d by (simp add: session_typed session_due trim_hello msg_ids)
qed

lemma trim_hi_yo: "trim (js ''hi'') = js ''hi''" "trim (js ''yo'') = js ''yo''"
  by (simp_all add: trim_def trimEnd_def trimStart_def js_def isWhiteSpace_def)

text \<open>
  C4. The id of a message is \<open>msg-\<close> followed by the clock reading in milliseconds. A
  session in which the user sends \<open>hi\<close>, and 1000 ms later sends \<open>yo\<close> in the same
  millisecond in which the reply to \<open>hi\<close> is added: the second message of the user and
  the reply get the same id.
\<close>

theorem message_ids_collide_in_one_millisecond:
  "map msgId (messages (chatState (run exampleProfile (mount [] 0)
      [Click, Change (js ''hi''), Submit, Elapse 1000, Change (js ''yo''), Submit, TimerFires]))) =
     [js ''msg-0'', js ''msg-1000'', js ''msg-1000''] \<and>
   map sender (messages (chatState (run exampleProfile (mount [] 0)
      [Click, Change (js ''hi''), Submit, Elapse 1000, Change (js ''yo''), Submit, TimerFires]))) =
     [user, user, owner] \<and>
   \<not> distinct (map msgId (messages (chatState (run exampleProfile (mount [] 0)
      [Click, Change (js ''hi''), Submit, Elapse 1000, Change (js ''yo''), Submit, TimerFires]))))"
  by (simp add: run_def mount_def toggleChat_def handleSendMessage_def sendAutoReply_def
      autoReplyCallback_def Let_def trim_hi_yo msg_ids js_eq_Nil)

end
